theory Spec2Isabelle
  imports Main "HOL-Library.Sublist"
begin

section \<open>Interpreter resolution of pipx (src/pipx/interpreter.py)\<close>

text \<open>
  The module locates a Python interpreter by asking the operating system: it searches
  the command search path, tests whether a path is a symbolic link, canonicalises paths
  and runs child processes. The embedding makes those answers a parameter: a record of
  what the system replies to each query. Every function of the module becomes a function
  of that record; an exception is a value on the left of a sum, and what the function
  does besides returning (child processes it starts, warnings it logs) is listed, in
  order, next to its result. The record is a snapshot: a reply depends on the query
  alone, the system does not change while a function runs.

  Isabelle names do not start with an underscore, so \<open>_get_sys_executable\<close>,
  \<open>_find_default_windows_python\<close> and \<open>_get_absolute_python_interpreter\<close> lose
  theirs.

  Strings are lists of characters, \<open>sub in s\<close> is \<^const>\<open>sublist\<close>,
  \<open>s.startswith(p)\<close> is \<^const>\<open>prefix\<close>. Only ASCII text is modelled.
\<close>

subsection \<open>Strings\<close>

text \<open>\<open>str.lstrip(chars)\<close>: drops the leading characters that occur in \<open>chars\<close>.\<close>

definition lstrip :: "string \<Rightarrow> string \<Rightarrow> string" where
  "lstrip chars s = dropWhile (\<lambda>c. c \<in> set chars) s"

text \<open>
  \<open>str.strip()\<close> removes the characters for which \<open>str.isspace\<close> holds from both
  ends (in ASCII: 0x09 to 0x0D, 0x1C to 0x1F and the blank); \<open>bytes.strip()\<close> removes
  the six bytes of ASCII whitespace only.
\<close>

definition str_whitespace :: "char list" where
  "str_whitespace =
     [CHR 0x09, CHR 0x0A, CHR 0x0B, CHR 0x0C, CHR 0x0D,
      CHR 0x1C, CHR 0x1D, CHR 0x1E, CHR 0x1F, CHR 0x20]"

definition bytes_whitespace :: "char list" where
  "bytes_whitespace = [CHR 0x20, CHR 0x09, CHR 0x0A, CHR 0x0D, CHR 0x0B, CHR 0x0C]"

definition strip_chars :: "char list \<Rightarrow> string \<Rightarrow> string" where
  "strip_chars ws s =
     rev (dropWhile (\<lambda>c. c \<in> set ws) (rev (dropWhile (\<lambda>c. c \<in> set ws) s)))"

definition str_strip :: "string \<Rightarrow> string" where
  "str_strip s = strip_chars str_whitespace s"

definition bytes_strip :: "string \<Rightarrow> string" where
  "bytes_strip s = strip_chars bytes_whitespace s"

text \<open>
  Truth value of an \<open>Optional[str]\<close>: \<open>None\<close> and the empty string are false. The
  result keeps the string when it is true.
\<close>

fun truthy :: "string option \<Rightarrow> string option" where
  "truthy None = None"
| "truthy (Some s) = (if s = [] then None else Some s)"

subsection \<open>Exceptions\<close>

text \<open>
  The built-in exceptions that the calls into the standard library raise here.
  \<open>OSError\<close> stands for any \<open>OSError\<close> that is not a
  \<open>FileNotFoundError\<close> (permission denied, not an executable, a loop of links),
  \<open>ValueError\<close> for any \<open>ValueError\<close> that is not a
  \<open>UnicodeDecodeError\<close> (a NUL character in an argument or a path).
\<close>

datatype builtin_error = FileNotFoundError | OSError | ValueError | UnicodeDecodeError

datatype exn =
    InterpreterResolutionError (source: string) (version: string) (message: string)
  | PipxError string
  | CalledProcessError int
  | Builtin builtin_error

definition apostrophe :: char where
  "apostrophe = CHR 0x27"

definition path_hint :: string where
  "path_hint = ''The provided version looks like a path, but no executable was found there.''"

definition pylauncher_hint :: string where
  "pylauncher_hint =
     ''The provided version looks like a version for Python Launcher, '' @
     ''but `py` was not found on PATH.''"

text \<open>
  \<open>InterpreterResolutionError.__init__\<close>, lines 24 to 44. The base class
  \<open>PipxError\<close> is not part of the sources at hand; the third field is the message
  the constructor hands to it (with \<open>wrap_message\<close> left at its default).
\<close>

definition resolution_message :: "string \<Rightarrow> string \<Rightarrow> string" where
  "resolution_message src ver =
     (let potentially_path = sublist ''/'' ver;
          potentially_pylauncher = (\<not> sublist ''python'' ver \<and> \<not> potentially_path);
          message0 =
            ''No executable for the provided Python version '' @ [apostrophe] @ ver @
            [apostrophe] @ '' found in '' @ src @ ''.'' @
            '' Please make sure the provided version is '';
          message1 =
            (if src = ''py launcher''
             then message0 @ ''listed when running `py --list`.'' else message0)
      in if src = ''PATH''
         then (let message2 = message1 @ ''on your PATH or the file path is valid. '';
                   message3 = (if potentially_path then message2 @ path_hint else message2)
               in if potentially_pylauncher then message3 @ pylauncher_hint else message3)
         else message1)"

definition resolution_error :: "string \<Rightarrow> string \<Rightarrow> exn" where
  "resolution_error src ver = InterpreterResolutionError src ver (resolution_message src ver)"

text \<open>The handler \<open>except (subprocess.CalledProcessError, FileNotFoundError)\<close>.\<close>

fun caught :: "exn \<Rightarrow> bool" where
  "caught (CalledProcessError _) = True"
| "caught (Builtin FileNotFoundError) = True"
| "caught _ = False"

text \<open>\<open>isinstance(x, InterpreterResolutionError)\<close>.\<close>

fun is_resolution_error :: "exn \<Rightarrow> bool" where
  "is_resolution_error (InterpreterResolutionError _ _ _) = True"
| "is_resolution_error _ = False"

subsection \<open>The operating system\<close>

text \<open>
  What \<open>subprocess.run\<close> meets when it runs a command. Either the call raises:
  the child cannot be started (an \<open>OSError\<close>, of which \<open>FileNotFoundError\<close>
  is one kind, or a \<open>ValueError\<close> for a NUL character in an argument), or, with
  \<open>text=True\<close>, its output cannot be decoded (\<open>UnicodeDecodeError\<close>). Or the
  child exits with a return code and its standard output, given as the caller receives
  it.
\<close>

datatype outcome = Raised builtin_error | Exited int string

record system =
  which :: "string \<Rightarrow> string option"
  islink :: "string \<Rightarrow> bool"
  realpath_strict :: "string \<Rightarrow> builtin_error + string"
  run :: "string list \<Rightarrow> outcome"
  has_venv :: bool
  sys_executable :: string
  WINDOWS :: bool
  environ :: "string \<Rightarrow> string option"

datatype event = Subprocess "string list" | Warning string

text \<open>
  \<open>subprocess.run(args, check=...)\<close>: what the call raises is raised as it is;
  with \<open>check\<close>, a non-zero exit raises \<open>CalledProcessError\<close>.
\<close>

definition subprocess_run :: "system \<Rightarrow> string list \<Rightarrow> bool \<Rightarrow> exn + int \<times> string" where
  "subprocess_run e args check =
     (case run e args of
        Raised x \<Rightarrow> Inl (Builtin x)
      | Exited rc out \<Rightarrow> if check \<and> rc \<noteq> 0 then Inl (CalledProcessError rc) else Inr (rc, out))"

text \<open>
  The expression of lines 57 and 69:
  \<open>os.path.realpath(p, strict=True) if not os.path.islink(p) else p\<close>. The strict
  canonicalisation raises an \<open>OSError\<close> (\<open>FileNotFoundError\<close> when the path
  does not exist) or a \<open>ValueError\<close> (a NUL character in the path).
\<close>

definition realpath_unless_islink :: "system \<Rightarrow> string \<Rightarrow> exn + string" where
  "realpath_unless_islink e p =
     (if \<not> islink e p
      then (case realpath_strict e p of Inl x \<Rightarrow> Inl (Builtin x) | Inr r \<Rightarrow> Inr r)
      else Inr p)"

definition self_report :: string where
  "self_report = ''import sys; print(sys.executable)''"

definition strip_warning :: string where
  "strip_warning =
     ''Removing `python` from the start of the version, as pylauncher just expects the semantic version''"

subsection \<open>The functions of the module\<close>

text \<open>\<open>find_py_launcher_python\<close>, lines 82 to 97.\<close>

definition find_py_launcher_python ::
  "system \<Rightarrow> string option \<Rightarrow> (exn + string option) \<times> event list" where
  "find_py_launcher_python e python_version =
     (let py = which e ''py'' in
      case (truthy py, truthy python_version) of
        (Some py_path, Some ver) \<Rightarrow>
          (let strips = prefix ''python'' ver;
               warned = (if strips then [Warning strip_warning] else []);
               python_semver = (if strips then lstrip ''python'' ver else ver);
               args = [py_path, ''-'' @ python_semver, ''-c'', self_report]
           in case subprocess_run e args True of
                Inl x \<Rightarrow> (Inl x, warned @ [Subprocess args])
              | Inr (rc, out) \<Rightarrow> (Inr (Some (str_strip out)), warned @ [Subprocess args]))
      | _ \<Rightarrow> (Inr py, []))"

text \<open>\<open>find_python_interpreter\<close>, lines 47 to 69.\<close>

definition find_python_interpreter :: "system \<Rightarrow> string \<Rightarrow> (exn + string) \<times> event list" where
  "find_python_interpreter e python_version =
     (case find_py_launcher_python e (Some python_version) of
        (Inl x, t) \<Rightarrow>
          (if caught x then (Inl (resolution_error ''py launcher'' python_version), t)
           else (Inl x, t))
      | (Inr py_executable, t) \<Rightarrow>
          (case truthy py_executable of
             Some p \<Rightarrow> (realpath_unless_islink e p, t)
           | None \<Rightarrow>
               (case truthy (which e python_version) of
                  None \<Rightarrow> (Inl (resolution_error ''PATH'' python_version), t)
                | Some found \<Rightarrow>
                    (case realpath_unless_islink e found of
                       Inl x \<Rightarrow> (Inl x, t)
                     | Inr path_python \<Rightarrow>
                         (let args = [path_python, ''-c'', self_report]
                          in case subprocess_run e args True of
                               Inl x \<Rightarrow>
                                 (if caught x
                                  then (Inl (resolution_error ''PATH'' python_version),
                                        t @ [Subprocess args])
                                  else (Inl x, t @ [Subprocess args]))
                             | Inr (rc, out) \<Rightarrow>
                                 (realpath_unless_islink e (str_strip out),
                                  t @ [Subprocess args]))))))"

text \<open>\<open>_find_default_windows_python\<close>, lines 100 to 122.\<close>

definition find_default_windows_python :: "system \<Rightarrow> (exn + string) \<times> event list" where
  "find_default_windows_python e =
     (if has_venv e then (Inr (sys_executable e), [])
      else
        (case find_py_launcher_python e None of
           (Inl x, t) \<Rightarrow> (Inl x, t)
         | (Inr launcher, t) \<Rightarrow>
             (let python = (case truthy launcher of Some p \<Rightarrow> Some p | None \<Rightarrow> which e ''python'')
              in case python of
                   None \<Rightarrow> (Inl (PipxError ''No suitable Python found''), t)
                 | Some p \<Rightarrow>
                     if \<not> sublist ''WindowsApps'' p then (Inr p, t)
                     else
                       (let args = [p, ''-V'']
                        in case subprocess_run e args False of
                             Inl x \<Rightarrow> (Inl x, t @ [Subprocess args])
                           | Inr (returncode, out) \<Rightarrow>
                               if returncode \<noteq> 0
                               then (Inl (PipxError ''No suitable Python found''),
                                     t @ [Subprocess args])
                               else if bytes_strip out = []
                               then (Inl (PipxError ''No suitable Python found''),
                                     t @ [Subprocess args])
                               else (Inr p, t @ [Subprocess args])))))"

text \<open>\<open>_get_sys_executable\<close>, lines 125 to 129.\<close>

definition get_sys_executable :: "system \<Rightarrow> (exn + string) \<times> event list" where
  "get_sys_executable e =
     (if WINDOWS e then find_default_windows_python e else (Inr (sys_executable e), []))"

text \<open>\<open>_get_absolute_python_interpreter\<close>, lines 132 to 136.\<close>

definition get_absolute_python_interpreter :: "system \<Rightarrow> string \<Rightarrow> exn + string" where
  "get_absolute_python_interpreter e env_python =
     (case truthy (which e env_python) of
        None \<Rightarrow>
          Inl (PipxError (''Default python interpreter '' @ [apostrophe] @ env_python @
                          [apostrophe] @ '' is invalid.''))
      | Some which_python \<Rightarrow> Inr which_python)"

text \<open>The module-level assignment of \<open>DEFAULT_PYTHON\<close>, lines 139 to 144.\<close>

definition DEFAULT_PYTHON :: "system \<Rightarrow> (exn + string) \<times> event list" where
  "DEFAULT_PYTHON e =
     (case truthy (environ e ''PIPX_DEFAULT_PYTHON'') of
        None \<Rightarrow> get_sys_executable e
      | Some env_default_python \<Rightarrow> (get_absolute_python_interpreter e env_default_python, []))"

subsection \<open>Concrete systems\<close>

text \<open>
  A Unix machine without the launcher. \<open>/usr/bin/python3\<close> is a symbolic link to
  \<open>python3.11\<close>; \<open>python3.9\<close> is a shim (a regular file) that reports an
  interpreter which has been removed since; the running interpreter was started through
  the directory link \<open>/bin\<close>.
\<close>

definition unix_system :: system where
  "unix_system =
     \<lparr> which = (\<lambda>n. if n = ''python3'' then Some ''/usr/bin/python3''
                      else if n = ''python3.11'' then Some ''/usr/bin/python3.11''
                      else if n = ''python3.9'' then Some ''/opt/shims/python3.9''
                      else None),
       islink = (\<lambda>p. p = ''/usr/bin/python3''),
       realpath_strict =
         (\<lambda>p. if p = ''/usr/bin/python3'' \<or> p = ''/usr/bin/python3.11'' \<or> p = ''/bin/python3.11''
              then Inr ''/usr/bin/python3.11''
              else if p = ''/opt/shims/python3.9'' then Inr ''/opt/shims/python3.9''
              else Inl FileNotFoundError),
       run =
         (\<lambda>args. if args = [''/usr/bin/python3'', ''-c'', self_report]
                 then Exited 0 (''/usr/bin/python3'' @ [CHR 0x0A])
                 else if args = [''/usr/bin/python3.11'', ''-c'', self_report]
                 then Exited 0 (''/usr/bin/python3.11'' @ [CHR 0x0A])
                 else if args = [''/opt/shims/python3.9'', ''-c'', self_report]
                 then Exited 0 (''/opt/pyenv/versions/3.9.1/bin/python3.9'' @ [CHR 0x0A])
                 else Raised FileNotFoundError),
       has_venv = True,
       sys_executable = ''/bin/python3.11'',
       WINDOWS = False,
       environ = (\<lambda>n. None) \<rparr>"

text \<open>
  A Windows machine running the embeddable distribution (no \<open>venv\<close>), with the
  launcher installed. The launcher knows 3.11 (a regular file) and 3.12 (reached through
  a symbolic link); any other version makes it exit with code 103.
\<close>

definition windows_system :: system where
  "windows_system =
     \<lparr> which = (\<lambda>n. if n = ''py'' then Some ''C:/Windows/py.exe''
                      else if n = ''python''
                      then Some ''C:/Users/u/AppData/Local/Microsoft/WindowsApps/python.exe''
                      else None),
       islink = (\<lambda>p. p = ''C:/links/python312.exe''),
       realpath_strict =
         (\<lambda>p. if p = ''C:/Python311/python.exe'' then Inr ''C:/Python311/python.exe''
              else if p = ''C:/links/python312.exe'' then Inr ''C:/Python312/python.exe''
              else Inl FileNotFoundError),
       run =
         (\<lambda>args. if args = [''C:/Windows/py.exe'', ''-3.11'', ''-c'', self_report]
                 then Exited 0 (''C:/Python311/python.exe'' @ [CHR 0x0A])
                 else if args = [''C:/Windows/py.exe'', ''-3.12'', ''-c'', self_report]
                 then Exited 0 (''C:/links/python312.exe'' @ [CHR 0x0A])
                 else Exited 103 []),
       has_venv = False,
       sys_executable = ''C:/pipx/python.exe'',
       WINDOWS = True,
       environ = (\<lambda>n. None) \<rparr>"

text \<open>
  A Windows machine without \<open>venv\<close> and without the launcher, where
  \<open>python\<close> is the stub of the application store: asked for its version it exits
  with code 9009 and prints nothing.
\<close>

definition store_stub_system :: system where
  "store_stub_system =
     \<lparr> which = (\<lambda>n. if n = ''python''
                      then Some ''C:/Users/u/AppData/Local/Microsoft/WindowsApps/python.exe''
                      else None),
       islink = (\<lambda>p. False),
       realpath_strict = (\<lambda>p. Inl FileNotFoundError),
       run = (\<lambda>args. Exited 9009 []),
       has_venv = False,
       sys_executable = ''C:/pipx/python.exe'',
       WINDOWS = True,
       environ = (\<lambda>n. None) \<rparr>"

text \<open>
  A Unix workstation without the launcher, with interpreters installed in several ways.
  \<open>python3\<close> is a symbolic link; the interpreter behind it reports a path below
  \<open>/opt/homebrew/opt\<close>, whose canonical form lies below \<open>/opt/homebrew/Cellar\<close>.
  \<open>python3.10\<close> is a wrapper, a regular file reached through a linked directory,
  that reports a symbolic link whose target is gone. \<open>python2\<close> is broken and exits
  with code 1, the output of \<open>python3.8\<close> cannot be decoded, and the canonicalisation
  of \<open>python3.7\<close> fails with a loop of links.
\<close>

definition workstation_system :: system where
  "workstation_system =
     \<lparr> which = (\<lambda>n. if n = ''python3'' then Some ''/opt/homebrew/bin/python3''
                      else if n = ''python3.10'' then Some ''/opt/tools/python3.10''
                      else if n = ''python2'' then Some ''/usr/local/bin/python2''
                      else if n = ''python3.8'' then Some ''/usr/local/bin/python3.8''
                      else if n = ''python3.7'' then Some ''/usr/local/bin/python3.7''
                      else None),
       islink = (\<lambda>p. p = ''/opt/homebrew/bin/python3'' \<or> p = ''/srv/py310/bin/python3.10''),
       realpath_strict =
         (\<lambda>p. if p = ''/opt/homebrew/bin/python3'' \<or> p = ''/opt/homebrew/opt/python/bin/python3.12''
              then Inr ''/opt/homebrew/Cellar/python/3.12/bin/python3.12''
              else if p = ''/opt/tools/python3.10'' then Inr ''/srv/tools/python3.10''
              else if p = ''/usr/local/bin/python2'' then Inr ''/usr/local/bin/python2''
              else if p = ''/usr/local/bin/python3.8'' then Inr ''/usr/local/bin/python3.8''
              else if p = ''/usr/local/bin/python3.7'' then Inl OSError
              else Inl FileNotFoundError),
       run =
         (\<lambda>args. if args = [''/opt/homebrew/bin/python3'', ''-c'', self_report]
                 then Exited 0 (''/opt/homebrew/opt/python/bin/python3.12'' @ [CHR 0x0A])
                 else if args = [''/srv/tools/python3.10'', ''-c'', self_report]
                 then Exited 0 (''/srv/py310/bin/python3.10'' @ [CHR 0x0A])
                 else if args = [''/usr/local/bin/python2'', ''-c'', self_report]
                 then Exited 1 []
                 else if args = [''/usr/local/bin/python3.8'', ''-c'', self_report]
                 then Raised UnicodeDecodeError
                 else Raised FileNotFoundError),
       has_venv = True,
       sys_executable = ''/opt/homebrew/Cellar/python/3.12/bin/python3.12'',
       WINDOWS = False,
       environ = (\<lambda>n. None) \<rparr>"

text \<open>
  A Windows machine where the launcher is on the search path but cannot be started:
  every attempt to run a command raises an \<open>OSError\<close> (access denied).
\<close>

definition denied_launcher_system :: system where
  "denied_launcher_system =
     \<lparr> which = (\<lambda>n. if n = ''py'' then Some ''C:/Windows/py.exe'' else None),
       islink = (\<lambda>p. False),
       realpath_strict = (\<lambda>p. Inl FileNotFoundError),
       run = (\<lambda>args. Raised OSError),
       has_venv = False,
       sys_executable = ''C:/pipx/python.exe'',
       WINDOWS = True,
       environ = (\<lambda>n. None) \<rparr>"

text \<open>
  A Windows machine whose launcher still lists an interpreter that has been removed:
  it reports \<open>C:/Python39/python.exe\<close> for every version, and no such file exists.
\<close>

definition stale_launcher_system :: system where
  "stale_launcher_system =
     \<lparr> which = (\<lambda>n. if n = ''py'' then Some ''C:/Windows/py.exe'' else None),
       islink = (\<lambda>p. False),
       realpath_strict = (\<lambda>p. Inl FileNotFoundError),
       run = (\<lambda>args. Exited 0 (''C:/Python39/python.exe'' @ [CHR 0x0A])),
       has_venv = False,
       sys_executable = ''C:/pipx/python.exe'',
       WINDOWS = True,
       environ = (\<lambda>n. None) \<rparr>"

section \<open>Properties\<close>

text \<open>
  C5. On a platform other than Windows the default resolver returns
  \<open>sys.executable\<close> itself and starts no child process (it does nothing else
  either); with \<open>PIPX_DEFAULT_PYTHON\<close> unset or empty that is the module's default.
\<close>

theorem default_is_running_interpreter:
  assumes "\<not> WINDOWS e"
  shows "get_sys_executable e = (Inr (sys_executable e), []) \<and>
         (truthy (environ e ''PIPX_DEFAULT_PYTHON'') = None \<longrightarrow>
            DEFAULT_PYTHON e = (Inr (sys_executable e), []))"
  using assms by (simp add: get_sys_executable_def DEFAULT_PYTHON_def)

text \<open>Evaluating the concrete systems.\<close>

lemmas system_simps =
  unix_system_def windows_system_def store_stub_system_def workstation_system_def
  denied_launcher_system_def stale_launcher_system_def self_report_def
  str_strip_def bytes_strip_def strip_chars_def str_whitespace_def bytes_whitespace_def

theorem default_is_running_interpreter_witness:
  "\<not> WINDOWS unix_system \<and>
   get_sys_executable unix_system = (Inr ''/bin/python3.11'', []) \<and>
   DEFAULT_PYTHON unix_system = (Inr ''/bin/python3.11'', [])"
  using default_is_running_interpreter [of unix_system]
  by (simp add: unix_system_def)

subsection \<open>What the launcher probe does\<close>

lemma launcher_not_invoked:
  assumes "truthy (which e ''py'') = None \<or> truthy pv = None"
  shows "find_py_launcher_python e pv = (Inr (which e ''py''), [])"
  using assms
  by (cases "truthy (which e ''py'')") (auto simp: find_py_launcher_python_def Let_def)

lemma launcher_invoked:
  assumes "truthy (which e ''py'') = Some py" and "v \<noteq> []"
  shows "find_py_launcher_python e (Some v) =
           (let args = [py, ''-'' @ (if prefix ''python'' v then lstrip ''python'' v else v),
                        ''-c'', self_report]
            in (case subprocess_run e args True of
                  Inl x \<Rightarrow> Inl x
                | Inr (rc, out) \<Rightarrow> Inr (Some (str_strip out)),
                (if prefix ''python'' v then [Warning strip_warning] else []) @
                [Subprocess args]))"
  using assms
  by (simp add: find_py_launcher_python_def Let_def split: sum.splits prod.splits)

text \<open>
  When the text after a leading \<open>python\<close> is empty or starts with a character
  other than p, y, t, h, o, n (a digit, say), \<open>lstrip("python")\<close> removes the
  token and nothing else.
\<close>

lemma lstrip_removes_token:
  assumes "rest = [] \<or> hd rest \<notin> set ''python''"
  shows "lstrip ''python'' (''python'' @ rest) = rest"
  using assms by (cases rest) (auto simp: lstrip_def)

text \<open>
  What \<open>find_python_interpreter\<close> does with each outcome of the launcher probe, and
  what the two handlers make of a child that was run with \<open>check=True\<close>.
\<close>

lemma after_launcher_raised:
  assumes "find_py_launcher_python e (Some v) = (Inl x, t)"
  shows "find_python_interpreter e v =
           (if caught x then Inl (resolution_error ''py launcher'' v) else Inl x, t)"
  using assms by (simp add: find_python_interpreter_def)

lemma after_launcher_reported:
  assumes "find_py_launcher_python e (Some v) = (Inr r, t)" and "truthy r = Some p"
  shows "find_python_interpreter e v = (realpath_unless_islink e p, t)"
  using assms by (simp add: find_python_interpreter_def)

lemma handled_child:
  "(case subprocess_run e args True of
      Inl x \<Rightarrow> (if caught x then (Inl (resolution_error src v), t) else (Inl x, t))
    | Inr (rc, out) \<Rightarrow> (k out, t)) =
   ((case run e args of
       Raised y \<Rightarrow>
         if y = FileNotFoundError then Inl (resolution_error src v) else Inl (Builtin y)
     | Exited rc out \<Rightarrow> if rc \<noteq> 0 then Inl (resolution_error src v) else k out), t)"
proof (cases "run e args")
  case (Raised y)
  then show ?thesis
    by (cases y) (simp_all add: subprocess_run_def)
next
  case (Exited rc out)
  then show ?thesis
    by (simp add: subprocess_run_def)
qed

lemma after_launcher_silent:
  assumes "find_py_launcher_python e (Some v) = (Inr r, t)" and "truthy r = None"
  shows "find_python_interpreter e v =
           (case truthy (which e v) of
              None \<Rightarrow> (Inl (resolution_error ''PATH'' v), t)
            | Some found \<Rightarrow>
                (case realpath_unless_islink e found of
                   Inl x \<Rightarrow> (Inl x, t)
                 | Inr path_python \<Rightarrow>
                     ((case run e [path_python, ''-c'', self_report] of
                         Raised y \<Rightarrow>
                           if y = FileNotFoundError then Inl (resolution_error ''PATH'' v)
                           else Inl (Builtin y)
                       | Exited rc out \<Rightarrow>
                           if rc \<noteq> 0 then Inl (resolution_error ''PATH'' v)
                           else realpath_unless_islink e (str_strip out)),
                      t @ [Subprocess [path_python, ''-c'', self_report]])))"
  using assms
  by (simp add: find_python_interpreter_def Let_def handled_child
      split: option.splits sum.splits)

lemma launcher_run:
  assumes "truthy (which e ''py'') = Some py" and "v \<noteq> []"
  shows "fst (find_py_launcher_python e (Some v)) =
           (case run e [py, ''-'' @ (if prefix ''python'' v then lstrip ''python'' v else v),
                        ''-c'', self_report] of
              Raised y \<Rightarrow> Inl (Builtin y)
            | Exited rc out \<Rightarrow>
                if rc \<noteq> 0 then Inl (CalledProcessError rc) else Inr (Some (str_strip out)))"
  using assms
  by (cases "prefix ''python'' v")
    (simp_all add: launcher_invoked subprocess_run_def Let_def split: outcome.splits)

text \<open>
  C1, as stated, fails: with nothing on the search path and the launcher present, an
  invocation of the launcher that fails with an \<open>OSError\<close> other than
  \<open>FileNotFoundError\<close> does not give the resolution error with source
  \<open>py launcher\<close>; the \<open>OSError\<close> itself reaches the caller.
\<close>

theorem launcher_start_error_not_translated:
  "truthy (which denied_launcher_system ''3.11'') = None \<and>
   truthy (which denied_launcher_system ''py'') = Some ''C:/Windows/py.exe'' \<and>
   run denied_launcher_system [''C:/Windows/py.exe'', ''-3.11'', ''-c'', self_report] =
     Raised OSError \<and>
   fst (find_python_interpreter denied_launcher_system ''3.11'') = Inl (Builtin OSError) \<and>
   \<not> is_resolution_error (Builtin OSError)"
  by (simp add: find_python_interpreter_def find_py_launcher_python_def subprocess_run_def
      denied_launcher_system_def)

text \<open>
  C1, amended. Let the search path hold nothing under the version string. Without a
  launcher the function raises the resolution error with source \<open>PATH\<close>. With a
  launcher and a non-empty version: if the invocation raises \<open>FileNotFoundError\<close> or
  exits with a non-zero code, the function raises the resolution error with source
  \<open>py launcher\<close>; if the invocation raises anything else, that exception reaches the
  caller as it is; if the launcher exits with code 0 and prints white space only, the
  function raises the resolution error with source \<open>PATH\<close>; otherwise the result is
  the final step applied to what the launcher printed. With a launcher and the empty
  version the result is the final step applied to the launcher's own path. So a path is
  returned only as the outcome of the final step on a non-empty path that the launcher
  probe reported.
\<close>

theorem unresolved_version_outcomes:
  assumes "truthy (which e v) = None"
  shows "(truthy (which e ''py'') = None \<longrightarrow>
            fst (find_python_interpreter e v) = Inl (resolution_error ''PATH'' v)) \<and>
         (\<forall>py. truthy (which e ''py'') = Some py \<and> v \<noteq> [] \<longrightarrow>
            fst (find_python_interpreter e v) =
              (case run e [py, ''-'' @ (if prefix ''python'' v then lstrip ''python'' v else v),
                           ''-c'', self_report] of
                 Raised y \<Rightarrow>
                   if y = FileNotFoundError then Inl (resolution_error ''py launcher'' v)
                   else Inl (Builtin y)
               | Exited rc out \<Rightarrow>
                   if rc \<noteq> 0 then Inl (resolution_error ''py launcher'' v)
                   else if str_strip out = [] then Inl (resolution_error ''PATH'' v)
                   else realpath_unless_islink e (str_strip out))) \<and>
         (\<forall>py. truthy (which e ''py'') = Some py \<and> v = [] \<longrightarrow>
            fst (find_python_interpreter e v) = realpath_unless_islink e py) \<and>
         (\<forall>p. fst (find_python_interpreter e v) = Inr p \<longrightarrow>
            (\<exists>q. q \<noteq> [] \<and> fst (find_py_launcher_python e (Some v)) = Inr (Some q) \<and>
                 realpath_unless_islink e q = Inr p))"
proof -
  obtain res t where probe: "find_py_launcher_python e (Some v) = (res, t)"
    by (cases "find_py_launcher_python e (Some v)")
  have silent: "fst (find_python_interpreter e v) = Inl (resolution_error ''PATH'' v)"
    if "res = Inr r" and "truthy r = None" for r
    using that probe assms by (simp add: after_launcher_silent)
  have absent: "fst (find_python_interpreter e v) = Inl (resolution_error ''PATH'' v)"
    if none: "truthy (which e ''py'') = None"
  proof -
    have "res = Inr (which e ''py'')"
      using probe none by (simp add: launcher_not_invoked)
    then show ?thesis
      using silent none by simp
  qed
  have invoked: "fst (find_python_interpreter e v) =
      (case run e [py, ''-'' @ (if prefix ''python'' v then lstrip ''python'' v else v),
                   ''-c'', self_report] of
         Raised y \<Rightarrow>
           if y = FileNotFoundError then Inl (resolution_error ''py launcher'' v)
           else Inl (Builtin y)
       | Exited rc out \<Rightarrow>
           if rc \<noteq> 0 then Inl (resolution_error ''py launcher'' v)
           else if str_strip out = [] then Inl (resolution_error ''PATH'' v)
           else realpath_unless_islink e (str_strip out))"
    if present: "truthy (which e ''py'') = Some py" and version: "v \<noteq> []" for py
  proof (cases "run e [py, ''-'' @ (if prefix ''python'' v then lstrip ''python'' v else v),
                       ''-c'', self_report]")
    case (Raised y)
    then have "res = Inl (Builtin y)"
      using launcher_run [OF present version] probe by simp
    then show ?thesis
      using Raised probe by (cases y) (simp_all add: after_launcher_raised)
  next
    case (Exited rc out)
    show ?thesis
    proof (cases "rc = 0")
      case False
      then have "res = Inl (CalledProcessError rc)"
        using launcher_run [OF present version] probe Exited by simp
      then show ?thesis
        using Exited False probe by (simp add: after_launcher_raised)
    next
      case True
      then have res: "res = Inr (Some (str_strip out))"
        using launcher_run [OF present version] probe Exited by simp
      show ?thesis
      proof (cases "str_strip out = []")
        case blank: True
        then show ?thesis
          using silent [OF res] Exited True by simp
      next
        case printed: False
        then show ?thesis
          using res probe Exited True by (simp add: after_launcher_reported)
      qed
    qed
  qed
  have itself: "fst (find_python_interpreter e v) = realpath_unless_islink e py"
    if present: "truthy (which e ''py'') = Some py" and version: "v = []" for py
  proof -
    have "res = Inr (which e ''py'')"
      using probe version by (simp add: launcher_not_invoked)
    then show ?thesis
      using probe present by (simp add: after_launcher_reported)
  qed
  have returned: "\<exists>q. q \<noteq> [] \<and> fst (find_py_launcher_python e (Some v)) = Inr (Some q) \<and>
                     realpath_unless_islink e q = Inr p"
    if ok: "fst (find_python_interpreter e v) = Inr p" for p
  proof (cases res)
    case (Inl x)
    then show ?thesis
      using ok probe by (simp add: after_launcher_raised split: if_splits)
  next
    case (Inr r)
    show ?thesis
    proof (cases "truthy r")
      case None
      then show ?thesis
        using ok silent [OF Inr] by simp
    next
      case (Some q)
      then have "r = Some q" and "q \<noteq> []"
        by (cases r; simp split: if_splits)+
      then show ?thesis
        using ok probe Inr Some by (simp add: after_launcher_reported)
    qed
  qed
  show ?thesis
    using absent invoked itself returned by blast
qed

theorem unresolved_version_outcomes_witness:
  "truthy (which unix_system ''python99.99'') = None \<and>
   truthy (which unix_system ''py'') = None \<and>
   fst (find_python_interpreter unix_system ''python99.99'') =
     Inl (resolution_error ''PATH'' ''python99.99'') \<and>
   truthy (which windows_system ''9.9'') = None \<and>
   truthy (which windows_system ''py'') = Some ''C:/Windows/py.exe'' \<and>
   run windows_system [''C:/Windows/py.exe'', ''-9.9'', ''-c'', self_report] = Exited 103 [] \<and>
   fst (find_python_interpreter windows_system ''9.9'') =
     Inl (resolution_error ''py launcher'' ''9.9'') \<and>
   truthy (which denied_launcher_system ''3.11'') = None \<and>
   truthy (which denied_launcher_system ''py'') = Some ''C:/Windows/py.exe'' \<and>
   run denied_launcher_system [''C:/Windows/py.exe'', ''-3.11'', ''-c'', self_report] =
     Raised OSError \<and>
   fst (find_python_interpreter denied_launcher_system ''3.11'') = Inl (Builtin OSError) \<and>
   truthy (which windows_system ''3.12'') = None \<and>
   run windows_system [''C:/Windows/py.exe'', ''-3.12'', ''-c'', self_report] =
     Exited 0 (''C:/links/python312.exe'' @ [CHR 0x0A]) \<and>
   fst (find_python_interpreter windows_system ''3.12'') = Inr ''C:/links/python312.exe'' \<and>
   truthy (which windows_system []) = None \<and>
   fst (find_python_interpreter windows_system []) = Inl (Builtin FileNotFoundError)"
proof -
  have u: "truthy (which unix_system ''python99.99'') = None"
    "truthy (which unix_system ''py'') = None"
    by (simp_all add: unix_system_def)
  have w: "truthy (which windows_system ''9.9'') = None"
    "truthy (which windows_system ''3.12'') = None"
    "truthy (which windows_system []) = None"
    "truthy (which windows_system ''py'') = Some ''C:/Windows/py.exe''"
    "run windows_system [''C:/Windows/py.exe'', ''-9.9'', ''-c'', self_report] = Exited 103 []"
    "run windows_system [''C:/Windows/py.exe'', ''-3.12'', ''-c'', self_report] =
       Exited 0 (''C:/links/python312.exe'' @ [CHR 0x0A])"
    "str_strip (''C:/links/python312.exe'' @ [CHR 0x0A]) = ''C:/links/python312.exe''"
    "realpath_unless_islink windows_system ''C:/links/python312.exe'' =
       Inr ''C:/links/python312.exe''"
    "realpath_unless_islink windows_system ''C:/Windows/py.exe'' = Inl (Builtin FileNotFoundError)"
    by (simp_all add: realpath_unless_islink_def system_simps)
  have d: "truthy (which denied_launcher_system ''3.11'') = None"
    "truthy (which denied_launcher_system ''py'') = Some ''C:/Windows/py.exe''"
    "run denied_launcher_system [''C:/Windows/py.exe'', ''-3.11'', ''-c'', self_report] =
       Raised OSError"
    by (simp_all add: denied_launcher_system_def)
  have plain: "\<not> prefix ''python'' ''9.9''" "\<not> prefix ''python'' ''3.12''"
    "\<not> prefix ''python'' ''3.11''"
    by simp_all
  have r1: "fst (find_python_interpreter unix_system ''python99.99'') =
              Inl (resolution_error ''PATH'' ''python99.99'')"
    using unresolved_version_outcomes [OF u(1)] u(2) by simp
  have r2: "fst (find_python_interpreter windows_system ''9.9'') =
              Inl (resolution_error ''py launcher'' ''9.9'')"
    using unresolved_version_outcomes [OF w(1), THEN conjunct2, THEN conjunct1, rule_format,
        of "''C:/Windows/py.exe''"] w plain by simp
  have r3: "fst (find_python_interpreter denied_launcher_system ''3.11'') = Inl (Builtin OSError)"
    using unresolved_version_outcomes [OF d(1), THEN conjunct2, THEN conjunct1, rule_format,
        of "''C:/Windows/py.exe''"] d plain by simp
  have r4: "fst (find_python_interpreter windows_system ''3.12'') = Inr ''C:/links/python312.exe''"
    using unresolved_version_outcomes [OF w(2), THEN conjunct2, THEN conjunct1, rule_format,
        of "''C:/Windows/py.exe''"] w plain by simp
  have r5: "fst (find_python_interpreter windows_system []) = Inl (Builtin FileNotFoundError)"
    using unresolved_version_outcomes [OF w(3), THEN conjunct2, THEN conjunct2,
        THEN conjunct1, rule_format, of "''C:/Windows/py.exe''"] w by simp
  show ?thesis
    using u w(1-6) d r1 r2 r3 r4 r5 by simp
qed

text \<open>
  C6. On Windows, without \<open>venv\<close>, let the candidate (the launcher if there is
  one, else what the search path holds under \<open>python\<close>) have \<open>WindowsApps\<close> in
  its path. If its version query \<open>-V\<close> exits with a non-zero code, or prints nothing
  (or white space only), the resolver raises \<open>PipxError("No suitable Python found")\<close>
  and does not return the candidate.
\<close>

theorem store_stub_rejected:
  assumes "WINDOWS e" and "\<not> has_venv e"
    and "truthy (which e ''py'') = Some python \<or>
         truthy (which e ''py'') = None \<and> which e ''python'' = Some python"
    and "sublist ''WindowsApps'' python"
    and "run e [python, ''-V''] = Exited returncode out"
    and "returncode \<noteq> 0 \<or> bytes_strip out = []"
  shows "fst (get_sys_executable e) = Inl (PipxError ''No suitable Python found'') \<and>
         fst (get_sys_executable e) \<noteq> Inr python"
proof -
  have probe: "find_py_launcher_python e None = (Inr (which e ''py''), [])"
    by (simp add: launcher_not_invoked)
  have chosen: "(case truthy (which e ''py'') of Some p \<Rightarrow> Some p | None \<Rightarrow> which e ''python'')
                = Some python"
    using assms(3) by auto
  have "fst (find_default_windows_python e) = Inl (PipxError ''No suitable Python found'')"
    using assms(2,4,5,6) probe chosen
    by (auto simp: find_default_windows_python_def subprocess_run_def Let_def)
  then show ?thesis
    using assms(1) by (simp add: get_sys_executable_def)
qed

theorem store_stub_rejected_witness:
  "WINDOWS store_stub_system \<and> \<not> has_venv store_stub_system \<and>
   truthy (which store_stub_system ''py'') = None \<and>
   which store_stub_system ''python'' =
     Some ''C:/Users/u/AppData/Local/Microsoft/WindowsApps/python.exe'' \<and>
   sublist ''WindowsApps'' ''C:/Users/u/AppData/Local/Microsoft/WindowsApps/python.exe'' \<and>
   run store_stub_system [''C:/Users/u/AppData/Local/Microsoft/WindowsApps/python.exe'', ''-V'']
     = Exited 9009 [] \<and>
   fst (get_sys_executable store_stub_system) = Inl (PipxError ''No suitable Python found'')"
proof -
  have marker: "sublist ''WindowsApps''
                  ''C:/Users/u/AppData/Local/Microsoft/WindowsApps/python.exe''"
    by code_simp
  have sys: "WINDOWS store_stub_system" "\<not> has_venv store_stub_system"
    "truthy (which store_stub_system ''py'') = None"
    "which store_stub_system ''python'' =
       Some ''C:/Users/u/AppData/Local/Microsoft/WindowsApps/python.exe''"
    "run store_stub_system
       [''C:/Users/u/AppData/Local/Microsoft/WindowsApps/python.exe'', ''-V''] = Exited 9009 []"
    by (simp_all add: store_stub_system_def)
  show ?thesis
    using marker sys
      store_stub_rejected [of store_stub_system
        "''C:/Users/u/AppData/Local/Microsoft/WindowsApps/python.exe''" 9009 "[]"]
    by simp
qed

text \<open>
  C9. On Windows, without \<open>venv\<close>, with the launcher on the search path at a path
  that does not contain \<open>WindowsApps\<close>: the launcher probe, called without a
  version, returns the launcher's own path and starts no process, and the default
  resolver returns that path, the launcher executable itself.
\<close>

theorem default_is_launcher_itself:
  assumes "WINDOWS e" and "\<not> has_venv e"
    and "which e ''py'' = Some py" and "py \<noteq> []"
    and "\<not> sublist ''WindowsApps'' py"
  shows "find_py_launcher_python e None = (Inr (Some py), []) \<and>
         get_sys_executable e = (Inr py, [])"
proof -
  have probe: "find_py_launcher_python e None = (Inr (Some py), [])"
    using assms(3) by (simp add: launcher_not_invoked)
  then show ?thesis
    using assms
    by (simp add: get_sys_executable_def find_default_windows_python_def)
qed

theorem default_is_launcher_itself_witness:
  "WINDOWS windows_system \<and> \<not> has_venv windows_system \<and>
   which windows_system ''py'' = Some ''C:/Windows/py.exe'' \<and>
   \<not> sublist ''WindowsApps'' ''C:/Windows/py.exe'' \<and>
   find_py_launcher_python windows_system None = (Inr (Some ''C:/Windows/py.exe''), []) \<and>
   get_sys_executable windows_system = (Inr ''C:/Windows/py.exe'', [])"
proof -
  have marker: "\<not> sublist ''WindowsApps'' ''C:/Windows/py.exe''"
    by code_simp
  have sys: "WINDOWS windows_system" "\<not> has_venv windows_system"
    "which windows_system ''py'' = Some ''C:/Windows/py.exe''"
    by (simp_all add: windows_system_def)
  show ?thesis
    using marker sys default_is_launcher_itself [of windows_system "''C:/Windows/py.exe''"]
    by simp
qed

text \<open>
  C7. The launcher probe does not strip the literal token \<open>python\<close>: it calls
  \<open>lstrip("python")\<close>, which drops every leading character among p, y, t, h, o, n.
  For the version \<open>pythonpypy3\<close> the launcher is started with the flag \<open>-3\<close>, where
  stripping the token alone would give \<open>-pypy3\<close>. The warning is logged first.
\<close>

theorem lstrip_drops_more_than_python:
  "find_py_launcher_python windows_system (Some ''pythonpypy3'') =
     (Inl (CalledProcessError 103),
      [Warning strip_warning, Subprocess [''C:/Windows/py.exe'', ''-3'', ''-c'', self_report]]) \<and>
   prefix ''python'' ''pythonpypy3'' \<and>
   lstrip ''python'' ''pythonpypy3'' = ''3'' \<and>
   ''python'' @ ''pypy3'' = ''pythonpypy3''"
  by (simp add: find_py_launcher_python_def windows_system_def subprocess_run_def
      lstrip_def self_report_def)

subsection \<open>The two canonicalisation steps\<close>

text \<open>
  C2, as stated, fails for a symbolic link found on the search path: the function
  returns what the interpreter behind the link reports as its own location, after the
  final step, and that need not be the link. Here \<open>python3\<close> is found as the link
  \<open>/opt/homebrew/bin/python3\<close>, and the returned path lies below
  \<open>/opt/homebrew/Cellar\<close>.
\<close>

theorem found_symlink_not_returned:
  "truthy (which workstation_system ''python3'') = Some ''/opt/homebrew/bin/python3'' \<and>
   islink workstation_system ''/opt/homebrew/bin/python3'' \<and>
   fst (find_python_interpreter workstation_system ''python3'') =
     Inr ''/opt/homebrew/Cellar/python/3.12/bin/python3.12'' \<and>
   ''/opt/homebrew/Cellar/python/3.12/bin/python3.12'' \<noteq> ''/opt/homebrew/bin/python3''"
  by (simp add: find_python_interpreter_def find_py_launcher_python_def subprocess_run_def
      realpath_unless_islink_def system_simps)

text \<open>
  C2, amended. A symbolic link is never dereferenced, but the path returned is the one
  a probe reports. If the launcher probe reports the link \<open>p\<close>, the function returns
  \<open>p\<close> exactly. If the launcher probe reports nothing and the entry found on the
  search path is the link \<open>p\<close>, the child asked for its location is started on
  \<open>p\<close> itself, and the function returns the final step applied to what that child
  prints (or raises, when the child fails); it returns \<open>p\<close> exactly when the child
  prints \<open>p\<close>. If the executable found on the search path reports the link \<open>p\<close>
  as its location, the function returns \<open>p\<close> exactly.
\<close>

theorem symlink_never_dereferenced:
  assumes "islink e p"
  shows "(fst (find_py_launcher_python e (Some v)) = Inr (Some p) \<and> p \<noteq> [] \<longrightarrow>
            fst (find_python_interpreter e v) = Inr p) \<and>
         (\<forall>r. fst (find_py_launcher_python e (Some v)) = Inr r \<and> truthy r = None \<and>
            truthy (which e v) = Some p \<longrightarrow>
            find_python_interpreter e v =
              ((case run e [p, ''-c'', self_report] of
                  Raised y \<Rightarrow>
                    if y = FileNotFoundError then Inl (resolution_error ''PATH'' v)
                    else Inl (Builtin y)
                | Exited rc out \<Rightarrow>
                    if rc \<noteq> 0 then Inl (resolution_error ''PATH'' v)
                    else if islink e (str_strip out) then Inr (str_strip out)
                    else (case realpath_strict e (str_strip out) of
                            Inl y \<Rightarrow> Inl (Builtin y) | Inr c \<Rightarrow> Inr c)),
               snd (find_py_launcher_python e (Some v)) @ [Subprocess [p, ''-c'', self_report]]) \<and>
            (\<forall>out. run e [p, ''-c'', self_report] = Exited 0 out \<and> str_strip out = p \<longrightarrow>
               fst (find_python_interpreter e v) = Inr p)) \<and>
         (\<forall>r found path_python out.
            fst (find_py_launcher_python e (Some v)) = Inr r \<and> truthy r = None \<and>
            truthy (which e v) = Some found \<and>
            realpath_unless_islink e found = Inr path_python \<and>
            run e [path_python, ''-c'', self_report] = Exited 0 out \<and> str_strip out = p \<longrightarrow>
            fst (find_python_interpreter e v) = Inr p)"
proof -
  obtain res t where probe: "find_py_launcher_python e (Some v) = (res, t)"
    by (cases "find_py_launcher_python e (Some v)")
  have final: "realpath_unless_islink e p = Inr p"
    using assms by (simp add: realpath_unless_islink_def)
  have reported: "fst (find_python_interpreter e v) = Inr p"
    if "res = Inr (Some p)" and "p \<noteq> []"
    using that probe final by (simp add: after_launcher_reported)
  have entry: "find_python_interpreter e v =
      ((case run e [p, ''-c'', self_report] of
          Raised y \<Rightarrow>
            if y = FileNotFoundError then Inl (resolution_error ''PATH'' v)
            else Inl (Builtin y)
        | Exited rc out \<Rightarrow>
            if rc \<noteq> 0 then Inl (resolution_error ''PATH'' v)
            else if islink e (str_strip out) then Inr (str_strip out)
            else (case realpath_strict e (str_strip out) of
                    Inl y \<Rightarrow> Inl (Builtin y) | Inr c \<Rightarrow> Inr c)),
       t @ [Subprocess [p, ''-c'', self_report]])"
    if "res = Inr r" and "truthy r = None" and "truthy (which e v) = Some p" for r
    using that probe final
    by (simp add: after_launcher_silent realpath_unless_islink_def
        split: outcome.splits)
  have echoed: "fst (find_python_interpreter e v) = Inr p"
    if "res = Inr r" and "truthy r = None" and "truthy (which e v) = Some found"
      and "realpath_unless_islink e found = Inr path_python"
      and "run e [path_python, ''-c'', self_report] = Exited 0 out" and "str_strip out = p"
    for r found path_python out
    using that probe final by (simp add: after_launcher_silent)
  show ?thesis
  proof (intro conjI allI impI)
    assume "fst (find_py_launcher_python e (Some v)) = Inr (Some p) \<and> p \<noteq> []"
    then show "fst (find_python_interpreter e v) = Inr p"
      using reported probe by simp
  next
    fix r
    assume h: "fst (find_py_launcher_python e (Some v)) = Inr r \<and> truthy r = None \<and>
      truthy (which e v) = Some p"
    then show "find_python_interpreter e v =
      ((case run e [p, ''-c'', self_report] of
          Raised y \<Rightarrow>
            if y = FileNotFoundError then Inl (resolution_error ''PATH'' v)
            else Inl (Builtin y)
        | Exited rc out \<Rightarrow>
            if rc \<noteq> 0 then Inl (resolution_error ''PATH'' v)
            else if islink e (str_strip out) then Inr (str_strip out)
            else (case realpath_strict e (str_strip out) of
                    Inl y \<Rightarrow> Inl (Builtin y) | Inr c \<Rightarrow> Inr c)),
       snd (find_py_launcher_python e (Some v)) @ [Subprocess [p, ''-c'', self_report]])"
      using entry [of r] probe by simp
    fix out
    assume "run e [p, ''-c'', self_report] = Exited 0 out \<and> str_strip out = p"
    then show "fst (find_python_interpreter e v) = Inr p"
      using h echoed [of r p p out] probe final by simp
  next
    fix r found path_python out
    assume "fst (find_py_launcher_python e (Some v)) = Inr r \<and> truthy r = None \<and>
      truthy (which e v) = Some found \<and>
      realpath_unless_islink e found = Inr path_python \<and>
      run e [path_python, ''-c'', self_report] = Exited 0 out \<and> str_strip out = p"
    then show "fst (find_python_interpreter e v) = Inr p"
      using echoed [of r found path_python out] probe by simp
  qed
qed

theorem symlink_never_dereferenced_witness:
  "islink windows_system ''C:/links/python312.exe'' \<and>
   fst (find_py_launcher_python windows_system (Some ''3.12'')) =
     Inr (Some ''C:/links/python312.exe'') \<and>
   fst (find_python_interpreter windows_system ''3.12'') = Inr ''C:/links/python312.exe'' \<and>
   islink unix_system ''/usr/bin/python3'' \<and>
   fst (find_py_launcher_python unix_system (Some ''python3'')) = Inr None \<and>
   truthy (which unix_system ''python3'') = Some ''/usr/bin/python3'' \<and>
   run unix_system [''/usr/bin/python3'', ''-c'', self_report] =
     Exited 0 (''/usr/bin/python3'' @ [CHR 0x0A]) \<and>
   find_python_interpreter unix_system ''python3'' =
     (Inr ''/usr/bin/python3'', [Subprocess [''/usr/bin/python3'', ''-c'', self_report]]) \<and>
   islink workstation_system ''/opt/homebrew/bin/python3'' \<and>
   fst (find_py_launcher_python workstation_system (Some ''python3'')) = Inr None \<and>
   truthy (which workstation_system ''python3'') = Some ''/opt/homebrew/bin/python3'' \<and>
   run workstation_system [''/opt/homebrew/bin/python3'', ''-c'', self_report] =
     Exited 0 (''/opt/homebrew/opt/python/bin/python3.12'' @ [CHR 0x0A]) \<and>
   find_python_interpreter workstation_system ''python3'' =
     (Inr ''/opt/homebrew/Cellar/python/3.12/bin/python3.12'',
      [Subprocess [''/opt/homebrew/bin/python3'', ''-c'', self_report]]) \<and>
   islink workstation_system ''/srv/py310/bin/python3.10'' \<and>
   fst (find_python_interpreter workstation_system ''python3.10'') =
     Inr ''/srv/py310/bin/python3.10''"
proof -
  have w: "islink windows_system ''C:/links/python312.exe''"
    "fst (find_py_launcher_python windows_system (Some ''3.12'')) =
       Inr (Some ''C:/links/python312.exe'')"
    by (simp_all add: find_py_launcher_python_def subprocess_run_def system_simps)
  have u: "islink unix_system ''/usr/bin/python3''"
    "find_py_launcher_python unix_system (Some ''python3'') = (Inr None, [])"
    "truthy (which unix_system ''python3'') = Some ''/usr/bin/python3''"
    "run unix_system [''/usr/bin/python3'', ''-c'', self_report] =
       Exited 0 (''/usr/bin/python3'' @ [CHR 0x0A])"
    "str_strip (''/usr/bin/python3'' @ [CHR 0x0A]) = ''/usr/bin/python3''"
    by (simp_all add: find_py_launcher_python_def system_simps)
  have h: "islink workstation_system ''/opt/homebrew/bin/python3''"
    "find_py_launcher_python workstation_system (Some ''python3'') = (Inr None, [])"
    "truthy (which workstation_system ''python3'') = Some ''/opt/homebrew/bin/python3''"
    "run workstation_system [''/opt/homebrew/bin/python3'', ''-c'', self_report] =
       Exited 0 (''/opt/homebrew/opt/python/bin/python3.12'' @ [CHR 0x0A])"
    "str_strip (''/opt/homebrew/opt/python/bin/python3.12'' @ [CHR 0x0A]) =
       ''/opt/homebrew/opt/python/bin/python3.12''"
    "\<not> islink workstation_system ''/opt/homebrew/opt/python/bin/python3.12''"
    "realpath_strict workstation_system ''/opt/homebrew/opt/python/bin/python3.12'' =
       Inr ''/opt/homebrew/Cellar/python/3.12/bin/python3.12''"
    by (simp_all add: find_py_launcher_python_def system_simps)
  have k: "islink workstation_system ''/srv/py310/bin/python3.10''"
    "find_py_launcher_python workstation_system (Some ''python3.10'') = (Inr None, [])"
    "truthy (which workstation_system ''python3.10'') = Some ''/opt/tools/python3.10''"
    "realpath_unless_islink workstation_system ''/opt/tools/python3.10'' =
       Inr ''/srv/tools/python3.10''"
    "run workstation_system [''/srv/tools/python3.10'', ''-c'', self_report] =
       Exited 0 (''/srv/py310/bin/python3.10'' @ [CHR 0x0A])"
    "str_strip (''/srv/py310/bin/python3.10'' @ [CHR 0x0A]) = ''/srv/py310/bin/python3.10''"
    by (simp_all add: find_py_launcher_python_def realpath_unless_islink_def system_simps)
  note at_w = symlink_never_dereferenced [OF w(1), of "''3.12''"]
  note at_u = symlink_never_dereferenced [OF u(1), of "''python3''",
      THEN conjunct2, THEN conjunct1, rule_format, of None]
  note at_h = symlink_never_dereferenced [OF h(1), of "''python3''",
      THEN conjunct2, THEN conjunct1, rule_format, of None]
  note at_k = symlink_never_dereferenced [OF k(1), of "''python3.10''",
      THEN conjunct2, THEN conjunct2, rule_format,
      of None "''/opt/tools/python3.10''" "''/srv/tools/python3.10''"
        "''/srv/py310/bin/python3.10'' @ [CHR 0x0A]"]
  have r1: "fst (find_python_interpreter windows_system ''3.12'') = Inr ''C:/links/python312.exe''"
    using at_w w(2) by simp
  have r2: "find_python_interpreter unix_system ''python3'' =
              (Inr ''/usr/bin/python3'', [Subprocess [''/usr/bin/python3'', ''-c'', self_report]])"
    using at_u u by simp
  have r3: "find_python_interpreter workstation_system ''python3'' =
              (Inr ''/opt/homebrew/Cellar/python/3.12/bin/python3.12'',
               [Subprocess [''/opt/homebrew/bin/python3'', ''-c'', self_report]])"
    using at_h h by simp
  have r4: "fst (find_python_interpreter workstation_system ''python3.10'') =
              Inr ''/srv/py310/bin/python3.10''"
    using at_k k by simp
  show ?thesis
    using w u(1,3,4) h(1,3,4) k(1) r1 r2 r3 r4 by (simp add: u(2) h(2))
qed

text \<open>
  C3, as stated, fails for an entry of the search path that is not a symbolic link: the
  function returns what the executable reports, not the canonical form of the entry.
  Here \<open>python3.10\<close> is found as a regular file whose canonical form exists, and
  the path returned is the link that the wrapper prints, whose target is gone.
\<close>

theorem found_file_not_returned_canonical:
  "truthy (which workstation_system ''python3.10'') = Some ''/opt/tools/python3.10'' \<and>
   \<not> islink workstation_system ''/opt/tools/python3.10'' \<and>
   realpath_strict workstation_system ''/opt/tools/python3.10'' = Inr ''/srv/tools/python3.10'' \<and>
   fst (find_python_interpreter workstation_system ''python3.10'') =
     Inr ''/srv/py310/bin/python3.10'' \<and>
   ''/srv/py310/bin/python3.10'' \<noteq> ''/srv/tools/python3.10'' \<and>
   realpath_strict workstation_system ''/srv/py310/bin/python3.10'' = Inl FileNotFoundError"
  by (simp add: find_python_interpreter_def find_py_launcher_python_def subprocess_run_def
      realpath_unless_islink_def system_simps)

text \<open>
  C3, amended. If the launcher probe, or the executable found on the search path,
  reports a path \<open>p\<close> that is not a symbolic link, the function returns the
  canonical path of \<open>p\<close>, and raises what the strict canonicalisation raises when
  \<open>p\<close> does not exist, instead of returning a path. If the launcher probe reports
  nothing and the entry found on the search path is \<open>p\<close>, not a symbolic link, then
  \<open>p\<close> is canonicalised first: when that raises, the function raises the same
  exception and starts no child; otherwise the child is started on the canonical path
  of \<open>p\<close> and the function returns the final step applied to what the child
  prints (or raises, when the child fails), which is not the canonical path of \<open>p\<close>
  in general and is returned unchecked when it is a symbolic link.
\<close>

theorem plain_path_canonicalised:
  assumes "\<not> islink e p"
  shows "(fst (find_py_launcher_python e (Some v)) = Inr (Some p) \<and> p \<noteq> [] \<longrightarrow>
            fst (find_python_interpreter e v) =
              (case realpath_strict e p of Inl y \<Rightarrow> Inl (Builtin y) | Inr c \<Rightarrow> Inr c)) \<and>
         (\<forall>r. fst (find_py_launcher_python e (Some v)) = Inr r \<and> truthy r = None \<and>
            truthy (which e v) = Some p \<longrightarrow>
            find_python_interpreter e v =
              (case realpath_strict e p of
                 Inl y \<Rightarrow> (Inl (Builtin y), snd (find_py_launcher_python e (Some v)))
               | Inr c \<Rightarrow>
                   ((case run e [c, ''-c'', self_report] of
                       Raised y \<Rightarrow>
                         if y = FileNotFoundError then Inl (resolution_error ''PATH'' v)
                         else Inl (Builtin y)
                     | Exited rc out \<Rightarrow>
                         if rc \<noteq> 0 then Inl (resolution_error ''PATH'' v)
                         else if islink e (str_strip out) then Inr (str_strip out)
                         else (case realpath_strict e (str_strip out) of
                                 Inl y \<Rightarrow> Inl (Builtin y) | Inr c' \<Rightarrow> Inr c')),
                    snd (find_py_launcher_python e (Some v)) @
                    [Subprocess [c, ''-c'', self_report]]))) \<and>
         (\<forall>r found path_python out.
            fst (find_py_launcher_python e (Some v)) = Inr r \<and> truthy r = None \<and>
            truthy (which e v) = Some found \<and>
            realpath_unless_islink e found = Inr path_python \<and>
            run e [path_python, ''-c'', self_report] = Exited 0 out \<and> str_strip out = p \<longrightarrow>
            fst (find_python_interpreter e v) =
              (case realpath_strict e p of Inl y \<Rightarrow> Inl (Builtin y) | Inr c \<Rightarrow> Inr c))"
proof -
  obtain res t where probe: "find_py_launcher_python e (Some v) = (res, t)"
    by (cases "find_py_launcher_python e (Some v)")
  have final: "realpath_unless_islink e p =
                 (case realpath_strict e p of Inl y \<Rightarrow> Inl (Builtin y) | Inr c \<Rightarrow> Inr c)"
    using assms by (simp add: realpath_unless_islink_def)
  have trace: "snd (find_py_launcher_python e (Some v)) = t"
    using probe by simp
  have reported: "fst (find_python_interpreter e v) =
      (case realpath_strict e p of Inl y \<Rightarrow> Inl (Builtin y) | Inr c \<Rightarrow> Inr c)"
    if "res = Inr (Some p)" and "p \<noteq> []"
    using that probe final by (simp add: after_launcher_reported)
  have entry: "find_python_interpreter e v =
      (case realpath_strict e p of
         Inl y \<Rightarrow> (Inl (Builtin y), t)
       | Inr c \<Rightarrow>
           ((case run e [c, ''-c'', self_report] of
               Raised y \<Rightarrow>
                 if y = FileNotFoundError then Inl (resolution_error ''PATH'' v)
                 else Inl (Builtin y)
             | Exited rc out \<Rightarrow>
                 if rc \<noteq> 0 then Inl (resolution_error ''PATH'' v)
                 else if islink e (str_strip out) then Inr (str_strip out)
                 else (case realpath_strict e (str_strip out) of
                         Inl y \<Rightarrow> Inl (Builtin y) | Inr c' \<Rightarrow> Inr c')),
            t @ [Subprocess [c, ''-c'', self_report]]))"
    if "res = Inr r" and "truthy r = None" and "truthy (which e v) = Some p" for r
    using that probe final
    by (simp add: after_launcher_silent realpath_unless_islink_def
        split: outcome.splits sum.splits)
  have echoed: "fst (find_python_interpreter e v) =
      (case realpath_strict e p of Inl y \<Rightarrow> Inl (Builtin y) | Inr c \<Rightarrow> Inr c)"
    if "res = Inr r" and "truthy r = None" and "truthy (which e v) = Some found"
      and "realpath_unless_islink e found = Inr path_python"
      and "run e [path_python, ''-c'', self_report] = Exited 0 out" and "str_strip out = p"
    for r found path_python out
    using that probe final by (simp add: after_launcher_silent)
  show ?thesis
  proof (intro conjI allI impI)
    assume "fst (find_py_launcher_python e (Some v)) = Inr (Some p) \<and> p \<noteq> []"
    then show "fst (find_python_interpreter e v) =
      (case realpath_strict e p of Inl y \<Rightarrow> Inl (Builtin y) | Inr c \<Rightarrow> Inr c)"
      using reported probe by simp
  next
    fix r
    assume "fst (find_py_launcher_python e (Some v)) = Inr r \<and> truthy r = None \<and>
      truthy (which e v) = Some p"
    then show "find_python_interpreter e v =
      (case realpath_strict e p of
         Inl y \<Rightarrow> (Inl (Builtin y), snd (find_py_launcher_python e (Some v)))
       | Inr c \<Rightarrow>
           ((case run e [c, ''-c'', self_report] of
               Raised y \<Rightarrow>
                 if y = FileNotFoundError then Inl (resolution_error ''PATH'' v)
                 else Inl (Builtin y)
             | Exited rc out \<Rightarrow>
                 if rc \<noteq> 0 then Inl (resolution_error ''PATH'' v)
                 else if islink e (str_strip out) then Inr (str_strip out)
                 else (case realpath_strict e (str_strip out) of
                         Inl y \<Rightarrow> Inl (Builtin y) | Inr c' \<Rightarrow> Inr c')),
            snd (find_py_launcher_python e (Some v)) @
            [Subprocess [c, ''-c'', self_report]]))"
      unfolding trace using entry [of r] probe by simp
  next
    fix r found path_python out
    assume "fst (find_py_launcher_python e (Some v)) = Inr r \<and> truthy r = None \<and>
      truthy (which e v) = Some found \<and>
      realpath_unless_islink e found = Inr path_python \<and>
      run e [path_python, ''-c'', self_report] = Exited 0 out \<and> str_strip out = p"
    then show "fst (find_python_interpreter e v) =
      (case realpath_strict e p of Inl y \<Rightarrow> Inl (Builtin y) | Inr c \<Rightarrow> Inr c)"
      using echoed [of r found path_python out] probe by simp
  qed
qed

theorem plain_path_canonicalised_witness:
  "\<not> islink stale_launcher_system ''C:/Python39/python.exe'' \<and>
   fst (find_py_launcher_python stale_launcher_system (Some ''3.9'')) =
     Inr (Some ''C:/Python39/python.exe'') \<and>
   realpath_strict stale_launcher_system ''C:/Python39/python.exe'' = Inl FileNotFoundError \<and>
   fst (find_python_interpreter stale_launcher_system ''3.9'') =
     Inl (Builtin FileNotFoundError) \<and>
   \<not> islink workstation_system ''/opt/tools/python3.10'' \<and>
   fst (find_py_launcher_python workstation_system (Some ''python3.10'')) = Inr None \<and>
   truthy (which workstation_system ''python3.10'') = Some ''/opt/tools/python3.10'' \<and>
   realpath_strict workstation_system ''/opt/tools/python3.10'' = Inr ''/srv/tools/python3.10'' \<and>
   find_python_interpreter workstation_system ''python3.10'' =
     (Inr ''/srv/py310/bin/python3.10'',
      [Subprocess [''/srv/tools/python3.10'', ''-c'', self_report]]) \<and>
   \<not> islink workstation_system ''/usr/local/bin/python3.7'' \<and>
   truthy (which workstation_system ''python3.7'') = Some ''/usr/local/bin/python3.7'' \<and>
   realpath_strict workstation_system ''/usr/local/bin/python3.7'' = Inl OSError \<and>
   find_python_interpreter workstation_system ''python3.7'' = (Inl (Builtin OSError), []) \<and>
   \<not> islink workstation_system ''/opt/homebrew/opt/python/bin/python3.12'' \<and>
   run workstation_system [''/opt/homebrew/bin/python3'', ''-c'', self_report] =
     Exited 0 (''/opt/homebrew/opt/python/bin/python3.12'' @ [CHR 0x0A]) \<and>
   realpath_strict workstation_system ''/opt/homebrew/opt/python/bin/python3.12'' =
     Inr ''/opt/homebrew/Cellar/python/3.12/bin/python3.12'' \<and>
   fst (find_python_interpreter workstation_system ''python3'') =
     Inr ''/opt/homebrew/Cellar/python/3.12/bin/python3.12''"
proof -
  have s: "\<not> islink stale_launcher_system ''C:/Python39/python.exe''"
    "fst (find_py_launcher_python stale_launcher_system (Some ''3.9'')) =
       Inr (Some ''C:/Python39/python.exe'')"
    "realpath_strict stale_launcher_system ''C:/Python39/python.exe'' = Inl FileNotFoundError"
    by (simp_all add: find_py_launcher_python_def subprocess_run_def system_simps)
  have k: "\<not> islink workstation_system ''/opt/tools/python3.10''"
    "find_py_launcher_python workstation_system (Some ''python3.10'') = (Inr None, [])"
    "truthy (which workstation_system ''python3.10'') = Some ''/opt/tools/python3.10''"
    "realpath_strict workstation_system ''/opt/tools/python3.10'' = Inr ''/srv/tools/python3.10''"
    "run workstation_system [''/srv/tools/python3.10'', ''-c'', self_report] =
       Exited 0 (''/srv/py310/bin/python3.10'' @ [CHR 0x0A])"
    "str_strip (''/srv/py310/bin/python3.10'' @ [CHR 0x0A]) = ''/srv/py310/bin/python3.10''"
    "islink workstation_system ''/srv/py310/bin/python3.10''"
    by (simp_all add: find_py_launcher_python_def system_simps)
  have l: "\<not> islink workstation_system ''/usr/local/bin/python3.7''"
    "find_py_launcher_python workstation_system (Some ''python3.7'') = (Inr None, [])"
    "truthy (which workstation_system ''python3.7'') = Some ''/usr/local/bin/python3.7''"
    "realpath_strict workstation_system ''/usr/local/bin/python3.7'' = Inl OSError"
    by (simp_all add: find_py_launcher_python_def system_simps)
  have h: "\<not> islink workstation_system ''/opt/homebrew/opt/python/bin/python3.12''"
    "find_py_launcher_python workstation_system (Some ''python3'') = (Inr None, [])"
    "truthy (which workstation_system ''python3'') = Some ''/opt/homebrew/bin/python3''"
    "realpath_unless_islink workstation_system ''/opt/homebrew/bin/python3'' =
       Inr ''/opt/homebrew/bin/python3''"
    "run workstation_system [''/opt/homebrew/bin/python3'', ''-c'', self_report] =
       Exited 0 (''/opt/homebrew/opt/python/bin/python3.12'' @ [CHR 0x0A])"
    "str_strip (''/opt/homebrew/opt/python/bin/python3.12'' @ [CHR 0x0A]) =
       ''/opt/homebrew/opt/python/bin/python3.12''"
    "realpath_strict workstation_system ''/opt/homebrew/opt/python/bin/python3.12'' =
       Inr ''/opt/homebrew/Cellar/python/3.12/bin/python3.12''"
    by (simp_all add: find_py_launcher_python_def realpath_unless_islink_def system_simps)
  note at_s = plain_path_canonicalised [OF s(1), of "''3.9''"]
  note at_k = plain_path_canonicalised [OF k(1), of "''python3.10''",
      THEN conjunct2, THEN conjunct1, rule_format, of None]
  note at_l = plain_path_canonicalised [OF l(1), of "''python3.7''",
      THEN conjunct2, THEN conjunct1, rule_format, of None]
  note at_h = plain_path_canonicalised [OF h(1), of "''python3''",
      THEN conjunct2, THEN conjunct2, rule_format,
      of None "''/opt/homebrew/bin/python3''" "''/opt/homebrew/bin/python3''"
        "''/opt/homebrew/opt/python/bin/python3.12'' @ [CHR 0x0A]"]
  have r1: "fst (find_python_interpreter stale_launcher_system ''3.9'') =
              Inl (Builtin FileNotFoundError)"
    using at_s s(2,3) by simp
  have r2: "find_python_interpreter workstation_system ''python3.10'' =
              (Inr ''/srv/py310/bin/python3.10'',
               [Subprocess [''/srv/tools/python3.10'', ''-c'', self_report]])"
    using at_k k by simp
  have r3: "find_python_interpreter workstation_system ''python3.7'' = (Inl (Builtin OSError), [])"
    using at_l l by simp
  have r4: "fst (find_python_interpreter workstation_system ''python3'') =
              Inr ''/opt/homebrew/Cellar/python/3.12/bin/python3.12''"
    using at_h h by simp
  show ?thesis
    using s k(1,3,4) l(1,3,4) h(1,5,7) r1 r2 r3 r4 by (simp add: k(2))
qed

subsection \<open>Which failures are translated\<close>

text \<open>
  C4, as stated, fails: the shim \<open>python3.9\<close> reports an interpreter that no longer
  exists, the strict canonicalisation of line 69 raises \<open>FileNotFoundError\<close>, and
  that error reaches the caller as it is.
\<close>

theorem canonicalisation_error_not_translated:
  "fst (find_python_interpreter unix_system ''python3.9'') = Inl (Builtin FileNotFoundError) \<and>
   \<not> is_resolution_error (Builtin FileNotFoundError)"
  by (simp add: find_python_interpreter_def find_py_launcher_python_def subprocess_run_def
      realpath_unless_islink_def system_simps)

text \<open>
  C4, amended. The function translates three failures into the resolution error that
  carries source and version: an invocation of the launcher that raises
  \<open>FileNotFoundError\<close> or exits with a non-zero code (source \<open>py launcher\<close>); a
  search path that holds nothing under the version; an invocation of the executable
  found there that raises \<open>FileNotFoundError\<close> or exits with a non-zero code (both
  source \<open>PATH\<close>). Every other exception reaches the caller as it was raised: any
  other exception of either invocation (another \<open>OSError\<close>, a \<open>ValueError\<close>, a
  \<open>UnicodeDecodeError\<close>), and whatever the strict canonicalisation raises at line 57
  or at line 69, \<open>FileNotFoundError\<close> included. The function fails in no other way.
\<close>

theorem translated_and_raw_failures:
  "(\<forall>py. truthy (which e ''py'') = Some py \<and> v \<noteq> [] \<longrightarrow>
      (\<forall>y. run e [py, ''-'' @ (if prefix ''python'' v then lstrip ''python'' v else v),
                    ''-c'', self_report] = Raised y \<longrightarrow>
         fst (find_python_interpreter e v) =
           Inl (if y = FileNotFoundError then resolution_error ''py launcher'' v
                else Builtin y)) \<and>
      (\<forall>rc out. run e [py, ''-'' @ (if prefix ''python'' v then lstrip ''python'' v else v),
                         ''-c'', self_report] = Exited rc out \<and> rc \<noteq> 0 \<longrightarrow>
         fst (find_python_interpreter e v) = Inl (resolution_error ''py launcher'' v))) \<and>
   (\<forall>p y. fst (find_py_launcher_python e (Some v)) = Inr (Some p) \<and> p \<noteq> [] \<and>
      \<not> islink e p \<and> realpath_strict e p = Inl y \<longrightarrow>
      fst (find_python_interpreter e v) = Inl (Builtin y)) \<and>
   (\<forall>r. fst (find_py_launcher_python e (Some v)) = Inr r \<and> truthy r = None \<longrightarrow>
      (truthy (which e v) = None \<longrightarrow>
         fst (find_python_interpreter e v) = Inl (resolution_error ''PATH'' v)) \<and>
      (\<forall>found. truthy (which e v) = Some found \<longrightarrow>
         (\<forall>y. \<not> islink e found \<and> realpath_strict e found = Inl y \<longrightarrow>
            fst (find_python_interpreter e v) = Inl (Builtin y)) \<and>
         (\<forall>path_python. realpath_unless_islink e found = Inr path_python \<longrightarrow>
            (\<forall>y. run e [path_python, ''-c'', self_report] = Raised y \<longrightarrow>
               fst (find_python_interpreter e v) =
                 Inl (if y = FileNotFoundError then resolution_error ''PATH'' v
                      else Builtin y)) \<and>
            (\<forall>rc out. run e [path_python, ''-c'', self_report] = Exited rc out \<and> rc \<noteq> 0 \<longrightarrow>
               fst (find_python_interpreter e v) = Inl (resolution_error ''PATH'' v)) \<and>
            (\<forall>out y. run e [path_python, ''-c'', self_report] = Exited 0 out \<and>
               \<not> islink e (str_strip out) \<and> realpath_strict e (str_strip out) = Inl y \<longrightarrow>
               fst (find_python_interpreter e v) = Inl (Builtin y))))) \<and>
   (\<forall>x. fst (find_python_interpreter e v) = Inl x \<longrightarrow>
      x = resolution_error ''py launcher'' v \<or> x = resolution_error ''PATH'' v \<or>
      (\<exists>y. x = Builtin y \<and>
         ((\<exists>args. run e args = Raised y \<and> y \<noteq> FileNotFoundError) \<or>
          (\<exists>p. \<not> islink e p \<and> realpath_strict e p = Inl y))))"
proof -
  obtain res t where probe: "find_py_launcher_python e (Some v) = (res, t)"
    by (cases "find_py_launcher_python e (Some v)")
  have launcher: "fst (find_python_interpreter e v) =
      (case run e [py, ''-'' @ (if prefix ''python'' v then lstrip ''python'' v else v),
                   ''-c'', self_report] of
         Raised y \<Rightarrow>
           Inl (if y = FileNotFoundError then resolution_error ''py launcher'' v else Builtin y)
       | Exited rc out \<Rightarrow>
           if rc \<noteq> 0 then Inl (resolution_error ''py launcher'' v)
           else fst (find_python_interpreter e v))"
    if present: "truthy (which e ''py'') = Some py" and version: "v \<noteq> []" for py
  proof (cases "run e [py, ''-'' @ (if prefix ''python'' v then lstrip ''python'' v else v),
                       ''-c'', self_report]")
    case (Raised y)
    then have "res = Inl (Builtin y)"
      using launcher_run [OF present version] probe by simp
    then show ?thesis
      using Raised probe by (cases y) (simp_all add: after_launcher_raised)
  next
    case (Exited rc out)
    show ?thesis
    proof (cases "rc = 0")
      case True
      then show ?thesis
        using Exited by simp
    next
      case False
      then have "res = Inl (CalledProcessError rc)"
        using launcher_run [OF present version] probe Exited by simp
      then show ?thesis
        using Exited False probe by (simp add: after_launcher_raised)
    qed
  qed
  have canon: "realpath_unless_islink e p = Inl (Builtin y)"
    if "\<not> islink e p" and "realpath_strict e p = Inl y" for p y
    using that by (simp add: realpath_unless_islink_def)
  have canon_raised: "\<exists>y. z = Builtin y \<and> (\<exists>p. \<not> islink e p \<and> realpath_strict e p = Inl y)"
    if "realpath_unless_islink e q = Inl z" for q z
    using that by (auto simp: realpath_unless_islink_def split: if_splits sum.splits)
  have part1: "\<forall>py. truthy (which e ''py'') = Some py \<and> v \<noteq> [] \<longrightarrow>
      (\<forall>y. run e [py, ''-'' @ (if prefix ''python'' v then lstrip ''python'' v else v),
                    ''-c'', self_report] = Raised y \<longrightarrow>
         fst (find_python_interpreter e v) =
           Inl (if y = FileNotFoundError then resolution_error ''py launcher'' v
                else Builtin y)) \<and>
      (\<forall>rc out. run e [py, ''-'' @ (if prefix ''python'' v then lstrip ''python'' v else v),
                         ''-c'', self_report] = Exited rc out \<and> rc \<noteq> 0 \<longrightarrow>
         fst (find_python_interpreter e v) = Inl (resolution_error ''py launcher'' v))"
  proof (intro allI impI conjI)
    fix py y
    assume "truthy (which e ''py'') = Some py \<and> v \<noteq> []"
      and "run e [py, ''-'' @ (if prefix ''python'' v then lstrip ''python'' v else v),
                  ''-c'', self_report] = Raised y"
    then show "fst (find_python_interpreter e v) =
        Inl (if y = FileNotFoundError then resolution_error ''py launcher'' v else Builtin y)"
      using launcher [of py] by simp
  next
    fix py rc out
    assume "truthy (which e ''py'') = Some py \<and> v \<noteq> []"
      and "run e [py, ''-'' @ (if prefix ''python'' v then lstrip ''python'' v else v),
                  ''-c'', self_report] = Exited rc out \<and> rc \<noteq> 0"
    then show "fst (find_python_interpreter e v) = Inl (resolution_error ''py launcher'' v)"
      using launcher [of py] by simp
  qed
  have part2: "\<forall>p y. fst (find_py_launcher_python e (Some v)) = Inr (Some p) \<and> p \<noteq> [] \<and>
      \<not> islink e p \<and> realpath_strict e p = Inl y \<longrightarrow>
      fst (find_python_interpreter e v) = Inl (Builtin y)"
    using probe canon by (auto simp: after_launcher_reported)
  have part3: "\<forall>r. fst (find_py_launcher_python e (Some v)) = Inr r \<and> truthy r = None \<longrightarrow>
      (truthy (which e v) = None \<longrightarrow>
         fst (find_python_interpreter e v) = Inl (resolution_error ''PATH'' v)) \<and>
      (\<forall>found. truthy (which e v) = Some found \<longrightarrow>
         (\<forall>y. \<not> islink e found \<and> realpath_strict e found = Inl y \<longrightarrow>
            fst (find_python_interpreter e v) = Inl (Builtin y)) \<and>
         (\<forall>path_python. realpath_unless_islink e found = Inr path_python \<longrightarrow>
            (\<forall>y. run e [path_python, ''-c'', self_report] = Raised y \<longrightarrow>
               fst (find_python_interpreter e v) =
                 Inl (if y = FileNotFoundError then resolution_error ''PATH'' v
                      else Builtin y)) \<and>
            (\<forall>rc out. run e [path_python, ''-c'', self_report] = Exited rc out \<and> rc \<noteq> 0 \<longrightarrow>
               fst (find_python_interpreter e v) = Inl (resolution_error ''PATH'' v)) \<and>
            (\<forall>out y. run e [path_python, ''-c'', self_report] = Exited 0 out \<and>
               \<not> islink e (str_strip out) \<and> realpath_strict e (str_strip out) = Inl y \<longrightarrow>
               fst (find_python_interpreter e v) = Inl (Builtin y))))"
    using probe canon by (auto simp: after_launcher_silent)
  have part4: "\<forall>x. fst (find_python_interpreter e v) = Inl x \<longrightarrow>
      x = resolution_error ''py launcher'' v \<or> x = resolution_error ''PATH'' v \<or>
      (\<exists>y. x = Builtin y \<and>
         ((\<exists>args. run e args = Raised y \<and> y \<noteq> FileNotFoundError) \<or>
          (\<exists>p. \<not> islink e p \<and> realpath_strict e p = Inl y)))"
  proof (intro allI impI)
    fix x
    assume failed: "fst (find_python_interpreter e v) = Inl x"
    show "x = resolution_error ''py launcher'' v \<or> x = resolution_error ''PATH'' v \<or>
      (\<exists>y. x = Builtin y \<and>
         ((\<exists>args. run e args = Raised y \<and> y \<noteq> FileNotFoundError) \<or>
          (\<exists>p. \<not> islink e p \<and> realpath_strict e p = Inl y)))"
    proof (cases res)
      case (Inl z)
      have "\<exists>a. subprocess_run e a True = Inl z"
        using probe Inl
        by (auto simp: find_py_launcher_python_def Let_def
            split: option.splits sum.splits prod.splits if_splits)
      then obtain a where a: "subprocess_run e a True = Inl z"
        by blast
      have "caught z \<or> (\<exists>y. z = Builtin y \<and> run e a = Raised y \<and> y \<noteq> FileNotFoundError)"
      proof (cases "run e a")
        case (Raised y)
        then show ?thesis
          using a by (cases y) (auto simp: subprocess_run_def)
      next
        case (Exited rc out)
        then show ?thesis
          using a by (auto simp: subprocess_run_def split: if_splits)
      qed
      moreover have "caught (Builtin y) \<longleftrightarrow> y = FileNotFoundError" for y
        by (cases y) simp_all
      ultimately show ?thesis
        using failed probe Inl by (auto simp: after_launcher_raised split: if_splits)
    next
      case (Inr r)
      show ?thesis
      proof (cases "truthy r")
        case (Some p)
        then show ?thesis
          using failed probe Inr canon_raised [of p x] by (auto simp: after_launcher_reported)
      next
        case None
        show ?thesis
        proof (cases "truthy (which e v)")
          case no_entry: None
          then show ?thesis
            using failed probe Inr None by (simp add: after_launcher_silent)
        next
          case (Some found)
          show ?thesis
          proof (cases "realpath_unless_islink e found")
            case bad: (Inl z)
            then show ?thesis
              using failed probe Inr None Some canon_raised [OF bad]
              by (auto simp: after_launcher_silent)
          next
            case good: (Inr path_python)
            show ?thesis
            proof (cases "run e [path_python, ''-c'', self_report]")
              case (Raised y)
              then show ?thesis
                using failed probe Inr None Some good
                by (cases "y = FileNotFoundError") (auto simp: after_launcher_silent)
            next
              case (Exited rc out)
              then show ?thesis
                using failed probe Inr None Some good canon_raised [of "str_strip out" x]
                by (cases "rc = 0") (auto simp: after_launcher_silent)
            qed
          qed
        qed
      qed
    qed
  qed
  show ?thesis
    using part1 part2 part3 part4 by (intro conjI)
qed

theorem translated_and_raw_failures_witness:
  "fst (find_python_interpreter windows_system ''9.9'') =
     Inl (resolution_error ''py launcher'' ''9.9'') \<and>
   fst (find_python_interpreter denied_launcher_system ''3.11'') = Inl (Builtin OSError) \<and>
   fst (find_python_interpreter stale_launcher_system ''3.9'') =
     Inl (Builtin FileNotFoundError) \<and>
   fst (find_python_interpreter unix_system ''python99.99'') =
     Inl (resolution_error ''PATH'' ''python99.99'') \<and>
   fst (find_python_interpreter workstation_system ''python3.7'') = Inl (Builtin OSError) \<and>
   fst (find_python_interpreter workstation_system ''python2'') =
     Inl (resolution_error ''PATH'' ''python2'') \<and>
   fst (find_python_interpreter workstation_system ''python3.8'') =
     Inl (Builtin UnicodeDecodeError) \<and>
   fst (find_python_interpreter unix_system ''python3.9'') = Inl (Builtin FileNotFoundError) \<and>
   (\<exists>y. Builtin FileNotFoundError = Builtin y \<and>
      ((\<exists>args. run unix_system args = Raised y \<and> y \<noteq> FileNotFoundError) \<or>
       (\<exists>p. \<not> islink unix_system p \<and> realpath_strict unix_system p = Inl y)))"
proof -
  have plain: "\<not> prefix ''python'' ''9.9''" "\<not> prefix ''python'' ''3.11''"
    by simp_all
  have w: "truthy (which windows_system ''py'') = Some ''C:/Windows/py.exe''"
    "run windows_system [''C:/Windows/py.exe'', ''-9.9'', ''-c'', self_report] = Exited 103 []"
    by (simp_all add: system_simps)
  have d: "truthy (which denied_launcher_system ''py'') = Some ''C:/Windows/py.exe''"
    "run denied_launcher_system [''C:/Windows/py.exe'', ''-3.11'', ''-c'', self_report] =
       Raised OSError"
    by (simp_all add: system_simps)
  have s: "fst (find_py_launcher_python stale_launcher_system (Some ''3.9'')) =
             Inr (Some ''C:/Python39/python.exe'')"
    "\<not> islink stale_launcher_system ''C:/Python39/python.exe''"
    "realpath_strict stale_launcher_system ''C:/Python39/python.exe'' = Inl FileNotFoundError"
    by (simp_all add: find_py_launcher_python_def subprocess_run_def system_simps)
  have u: "fst (find_py_launcher_python unix_system (Some v)) = Inr None" for v
    by (simp add: find_py_launcher_python_def unix_system_def)
  have k: "fst (find_py_launcher_python workstation_system (Some v)) = Inr None" for v
    by (simp add: find_py_launcher_python_def workstation_system_def)
  have paths: "truthy (which unix_system ''python99.99'') = None"
    "truthy (which workstation_system ''python3.7'') = Some ''/usr/local/bin/python3.7''"
    "\<not> islink workstation_system ''/usr/local/bin/python3.7''"
    "realpath_strict workstation_system ''/usr/local/bin/python3.7'' = Inl OSError"
    "truthy (which workstation_system ''python2'') = Some ''/usr/local/bin/python2''"
    "realpath_unless_islink workstation_system ''/usr/local/bin/python2'' =
       Inr ''/usr/local/bin/python2''"
    "run workstation_system [''/usr/local/bin/python2'', ''-c'', self_report] = Exited 1 []"
    "truthy (which workstation_system ''python3.8'') = Some ''/usr/local/bin/python3.8''"
    "realpath_unless_islink workstation_system ''/usr/local/bin/python3.8'' =
       Inr ''/usr/local/bin/python3.8''"
    "run workstation_system [''/usr/local/bin/python3.8'', ''-c'', self_report] =
       Raised UnicodeDecodeError"
    "truthy (which unix_system ''python3.9'') = Some ''/opt/shims/python3.9''"
    "realpath_unless_islink unix_system ''/opt/shims/python3.9'' = Inr ''/opt/shims/python3.9''"
    "run unix_system [''/opt/shims/python3.9'', ''-c'', self_report] =
       Exited 0 (''/opt/pyenv/versions/3.9.1/bin/python3.9'' @ [CHR 0x0A])"
    "str_strip (''/opt/pyenv/versions/3.9.1/bin/python3.9'' @ [CHR 0x0A]) =
       ''/opt/pyenv/versions/3.9.1/bin/python3.9''"
    "\<not> islink unix_system ''/opt/pyenv/versions/3.9.1/bin/python3.9''"
    "realpath_strict unix_system ''/opt/pyenv/versions/3.9.1/bin/python3.9'' =
       Inl FileNotFoundError"
    by (simp_all add: realpath_unless_islink_def system_simps)
  note launcher_part = translated_and_raw_failures [THEN conjunct1, rule_format]
  note reported_part = translated_and_raw_failures [THEN conjunct2, THEN conjunct1, rule_format]
  note path_part = translated_and_raw_failures [THEN conjunct2, THEN conjunct2, THEN conjunct1,
      rule_format]
  note only_part = translated_and_raw_failures [THEN conjunct2, THEN conjunct2, THEN conjunct2,
      rule_format]
  have r1: "fst (find_python_interpreter windows_system ''9.9'') =
              Inl (resolution_error ''py launcher'' ''9.9'')"
    using launcher_part [of windows_system "''C:/Windows/py.exe''" "''9.9''",
        THEN conjunct2, rule_format, of 103 "[]"] w plain by simp
  have r2: "fst (find_python_interpreter denied_launcher_system ''3.11'') = Inl (Builtin OSError)"
    using launcher_part [of denied_launcher_system "''C:/Windows/py.exe''" "''3.11''",
        THEN conjunct1, rule_format, of OSError] d plain by simp
  have r3: "fst (find_python_interpreter stale_launcher_system ''3.9'') =
              Inl (Builtin FileNotFoundError)"
    using reported_part [of stale_launcher_system "''3.9''" "''C:/Python39/python.exe''"
        FileNotFoundError] s by simp
  have r4: "fst (find_python_interpreter unix_system ''python99.99'') =
              Inl (resolution_error ''PATH'' ''python99.99'')"
    using path_part [of unix_system "''python99.99''" None, THEN conjunct1] u paths by simp
  have r5: "fst (find_python_interpreter workstation_system ''python3.7'') = Inl (Builtin OSError)"
    using path_part [of workstation_system "''python3.7''" None, THEN conjunct2, rule_format,
        of "''/usr/local/bin/python3.7''", THEN conjunct1, rule_format, of OSError] k paths
    by simp
  have r6: "fst (find_python_interpreter workstation_system ''python2'') =
              Inl (resolution_error ''PATH'' ''python2'')"
    using path_part [of workstation_system "''python2''" None, THEN conjunct2, rule_format,
        of "''/usr/local/bin/python2''", THEN conjunct2, rule_format,
        of "''/usr/local/bin/python2''", THEN conjunct2, THEN conjunct1, rule_format,
        of 1 "[]"] k paths
    by simp
  have r7: "fst (find_python_interpreter workstation_system ''python3.8'') =
              Inl (Builtin UnicodeDecodeError)"
    using path_part [of workstation_system "''python3.8''" None, THEN conjunct2, rule_format,
        of "''/usr/local/bin/python3.8''", THEN conjunct2, rule_format,
        of "''/usr/local/bin/python3.8''", THEN conjunct1, rule_format,
        of UnicodeDecodeError] k paths
    by simp
  have r8: "fst (find_python_interpreter unix_system ''python3.9'') =
              Inl (Builtin FileNotFoundError)"
    using path_part [of unix_system "''python3.9''" None, THEN conjunct2, rule_format,
        of "''/opt/shims/python3.9''", THEN conjunct2, rule_format,
        of "''/opt/shims/python3.9''", THEN conjunct2, THEN conjunct2, rule_format,
        of "''/opt/pyenv/versions/3.9.1/bin/python3.9'' @ [CHR 0x0A]" FileNotFoundError]
      u paths
    by simp
  have r9: "\<exists>y. Builtin FileNotFoundError = Builtin y \<and>
      ((\<exists>args. run unix_system args = Raised y \<and> y \<noteq> FileNotFoundError) \<or>
       (\<exists>p. \<not> islink unix_system p \<and> realpath_strict unix_system p = Inl y))"
    using only_part [of unix_system "''python3.9''" "Builtin FileNotFoundError"] r8
    by (simp add: resolution_error_def)
  show ?thesis
    using r1 r2 r3 r4 r5 r6 r7 r8 r9 by (intro conjI)
qed

subsection \<open>Which results are canonicalised\<close>

text \<open>
  C8, as stated, fails: the default resolver returns \<open>sys.executable\<close> as it is.
  Here the interpreter runs as \<open>/bin/python3.11\<close>, which is not a symbolic link and
  whose canonical path is \<open>/usr/bin/python3.11\<close>; the default is the former.
\<close>

theorem default_resolver_does_not_canonicalise:
  "get_sys_executable unix_system = (Inr ''/bin/python3.11'', []) \<and>
   \<not> islink unix_system ''/bin/python3.11'' \<and>
   realpath_strict unix_system ''/bin/python3.11'' = Inr ''/usr/bin/python3.11''"
  by (simp add: get_sys_executable_def unix_system_def)

text \<open>
  C8, amended. Every path returned by \<open>find_python_interpreter\<close> comes out of the
  final step applied to the path \<open>p\<close> that a probe reported (the launcher, or the
  executable found on the search path when asked for its own location): it is \<open>p\<close>
  if \<open>p\<close> is a symbolic link and the canonical path of \<open>p\<close> otherwise. The override
  entry point returns the entry of the search path as found, and the default resolver
  returns \<open>sys.executable\<close>, the launcher or the search-path entry \<open>python\<close> as
  found: neither applies the step.
\<close>

theorem results_of_the_resolvers:
  "(fst (find_python_interpreter e v) = Inr r \<longrightarrow>
      (\<exists>p. (fst (find_py_launcher_python e (Some v)) = Inr (Some p) \<and> p \<noteq> [] \<or>
            (\<exists>found path_python out.
               truthy (which e v) = Some found \<and>
               realpath_unless_islink e found = Inr path_python \<and>
               run e [path_python, ''-c'', self_report] = Exited 0 out \<and>
               str_strip out = p)) \<and>
           (if islink e p then r = p else realpath_strict e p = Inr r))) \<and>
   (get_absolute_python_interpreter e s = Inr r \<longrightarrow> which e s = Some r) \<and>
   (fst (get_sys_executable e) = Inr r \<longrightarrow>
      r = sys_executable e \<or> which e ''py'' = Some r \<or> which e ''python'' = Some r)"
proof (intro conjI impI)
  assume ok: "fst (find_python_interpreter e v) = Inr r"
  have canon: "if islink e p then r = p else realpath_strict e p = Inr r"
    if "realpath_unless_islink e p = Inr r" for p
    using that by (auto simp: realpath_unless_islink_def split: if_splits sum.splits)
  obtain res t where probe: "find_py_launcher_python e (Some v) = (res, t)"
    by (cases "find_py_launcher_python e (Some v)")
  show "\<exists>p. (fst (find_py_launcher_python e (Some v)) = Inr (Some p) \<and> p \<noteq> [] \<or>
            (\<exists>found path_python out.
               truthy (which e v) = Some found \<and>
               realpath_unless_islink e found = Inr path_python \<and>
               run e [path_python, ''-c'', self_report] = Exited 0 out \<and>
               str_strip out = p)) \<and>
           (if islink e p then r = p else realpath_strict e p = Inr r)"
  proof (cases res)
    case (Inl x)
    then show ?thesis
      using ok probe by (simp add: find_python_interpreter_def split: if_splits)
  next
    case (Inr py_executable)
    show ?thesis
    proof (cases "truthy py_executable")
      case (Some p)
      then have "py_executable = Some p" and "p \<noteq> []"
        by (cases py_executable; simp split: if_splits)+
      moreover have "realpath_unless_islink e p = Inr r"
        using ok probe Inr Some by (simp add: find_python_interpreter_def)
      ultimately show ?thesis
        using probe Inr canon by auto
    next
      case None
      obtain found where found: "truthy (which e v) = Some found"
        using ok probe Inr None
        by (cases "truthy (which e v)") (auto simp: find_python_interpreter_def)
      obtain path_python where path: "realpath_unless_islink e found = Inr path_python"
        using ok probe Inr None found
        by (cases "realpath_unless_islink e found") (auto simp: find_python_interpreter_def)
      obtain rc out where ran: "run e [path_python, ''-c'', self_report] = Exited rc out"
        and zero: "rc = 0"
        using ok probe Inr None found path
        by (cases "run e [path_python, ''-c'', self_report]")
          (auto simp: find_python_interpreter_def subprocess_run_def Let_def split: if_splits)
      have "realpath_unless_islink e (str_strip out) = Inr r"
        using ok probe Inr None found path ran zero
        by (simp add: find_python_interpreter_def subprocess_run_def Let_def)
      then show ?thesis
        using found path ran zero canon by blast
    qed
  qed
next
  assume "get_absolute_python_interpreter e s = Inr r"
  then show "which e s = Some r"
    by (cases "which e s")
      (auto simp: get_absolute_python_interpreter_def split: if_splits)
next
  assume ok: "fst (get_sys_executable e) = Inr r"
  have probe: "find_py_launcher_python e None = (Inr (which e ''py''), [])"
    by (simp add: launcher_not_invoked)
  show "r = sys_executable e \<or> which e ''py'' = Some r \<or> which e ''python'' = Some r"
  proof (cases "WINDOWS e \<and> \<not> has_venv e")
    case False
    then show ?thesis
      using ok
      by (cases "WINDOWS e")
        (auto simp: get_sys_executable_def find_default_windows_python_def)
  next
    case True
    show ?thesis
    proof (cases "truthy (which e ''py'')")
      case None
      then show ?thesis
        using ok True probe
        by (auto simp: get_sys_executable_def find_default_windows_python_def Let_def
            subprocess_run_def split: option.splits if_splits outcome.splits)
    next
      case (Some p)
      then have "which e ''py'' = Some p"
        by (cases "which e ''py''") (auto split: if_splits)
      then show ?thesis
        using ok True probe Some
        by (auto simp: get_sys_executable_def find_default_windows_python_def Let_def
            subprocess_run_def split: if_splits outcome.splits)
    qed
  qed
qed

theorem results_of_the_resolvers_witness:
  "fst (find_python_interpreter unix_system ''python3.11'') = Inr ''/usr/bin/python3.11'' \<and>
   (\<exists>p. (fst (find_py_launcher_python unix_system (Some ''python3.11'')) = Inr (Some p) \<and>
           p \<noteq> [] \<or>
         (\<exists>found path_python out.
            truthy (which unix_system ''python3.11'') = Some found \<and>
            realpath_unless_islink unix_system found = Inr path_python \<and>
            run unix_system [path_python, ''-c'', self_report] = Exited 0 out \<and>
            str_strip out = p)) \<and>
        (if islink unix_system p then ''/usr/bin/python3.11'' = p
         else realpath_strict unix_system p = Inr ''/usr/bin/python3.11'')) \<and>
   get_absolute_python_interpreter unix_system ''python3'' = Inr ''/usr/bin/python3'' \<and>
   which unix_system ''python3'' = Some ''/usr/bin/python3'' \<and>
   fst (get_sys_executable unix_system) = Inr ''/bin/python3.11'' \<and>
   ''/bin/python3.11'' = sys_executable unix_system"
proof -
  have r1: "fst (find_python_interpreter unix_system ''python3.11'') = Inr ''/usr/bin/python3.11''"
    by (simp add: find_python_interpreter_def find_py_launcher_python_def subprocess_run_def
        realpath_unless_islink_def system_simps)
  have r2: "get_absolute_python_interpreter unix_system ''python3'' = Inr ''/usr/bin/python3''"
    by (simp add: get_absolute_python_interpreter_def unix_system_def)
  have r3: "fst (get_sys_executable unix_system) = Inr ''/bin/python3.11''"
    by (simp add: get_sys_executable_def unix_system_def)
  note at1 = results_of_the_resolvers [of unix_system "''python3.11''" "''/usr/bin/python3.11''",
      THEN conjunct1, rule_format, OF r1]
  note at2 = results_of_the_resolvers [of unix_system _ "''/usr/bin/python3''" "''python3''",
      THEN conjunct2, THEN conjunct1, rule_format, OF r2]
  have at3: "''/bin/python3.11'' = sys_executable unix_system"
    by (simp add: unix_system_def)
  show ?thesis
    using r1 at1 r2 at2 r3 at3 by (intro conjI)
qed

subsection \<open>The hints of the diagnostic message\<close>

text \<open>
  The message quotes the version string between apostrophes. Neither hint contains an
  apostrophe, so an occurrence of a hint lies before the quotation, inside it or after it.
\<close>

lemma sublist_past_char:
  assumes "c \<notin> set h"
  shows "sublist h (xs @ c # ys) \<longleftrightarrow> sublist h xs \<or> sublist h ys"
proof -
  have stops: "h2 = []" if "prefix h2 (c # ys)" and "set h2 \<subseteq> set h" for h2
    using that assms by (cases h2) auto
  have right: "sublist h (c # ys) \<longleftrightarrow> h = [] \<or> sublist h ys"
    using stops [of h] by (auto simp: sublist_Cons_right)
  have across: "sublist h xs"
    if "h = h1 @ h2" and "suffix h1 xs" and "prefix h2 (c # ys)" for h1 h2
  proof -
    have "h2 = []"
      using stops [of h2] that by simp
    then show ?thesis
      using that by simp
  qed
  show ?thesis
    using right across by (auto simp: sublist_append)
qed

lemma sublist_quoted:
  assumes "apostrophe \<notin> set h"
  shows "sublist h (before @ apostrophe # ver @ apostrophe # rest) \<longleftrightarrow>
           sublist h before \<or> sublist h ver \<or> sublist h rest"
  using assms by (simp add: sublist_past_char)

lemma hints_without_apostrophe:
  "apostrophe \<notin> set path_hint" "apostrophe \<notin> set pylauncher_hint"
  by (simp_all add: apostrophe_def path_hint_def pylauncher_hint_def)

lemma message_for_PATH:
  "resolution_message ''PATH'' ver =
     ''No executable for the provided Python version '' @ apostrophe # ver @ apostrophe #
     ('' found in PATH. Please make sure the provided version is on your PATH or the file path is valid. '' @
      (if sublist ''/'' ver then path_hint else []) @
      (if \<not> sublist ''python'' ver \<and> \<not> sublist ''/'' ver then pylauncher_hint else []))"
  by (simp add: resolution_message_def Let_def)

lemma message_for_launcher:
  "resolution_message ''py launcher'' ver =
     ''No executable for the provided Python version '' @ apostrophe # ver @ apostrophe #
     '' found in py launcher. Please make sure the provided version is listed when running `py --list`.''"
  by (simp add: resolution_message_def Let_def)

lemma fixed_text_without_hints:
  "\<not> sublist path_hint ''No executable for the provided Python version ''"
  "\<not> sublist pylauncher_hint ''No executable for the provided Python version ''"
  "\<not> sublist path_hint
       '' found in PATH. Please make sure the provided version is on your PATH or the file path is valid. ''"
  "\<not> sublist pylauncher_hint
       '' found in PATH. Please make sure the provided version is on your PATH or the file path is valid. ''"
  "\<not> sublist path_hint
       ('' found in PATH. Please make sure the provided version is on your PATH or the file path is valid. '' @
        pylauncher_hint)"
  "\<not> sublist pylauncher_hint
       ('' found in PATH. Please make sure the provided version is on your PATH or the file path is valid. '' @
        path_hint)"
  "\<not> sublist path_hint
       '' found in py launcher. Please make sure the provided version is listed when running `py --list`.''"
  "\<not> sublist pylauncher_hint
       '' found in py launcher. Please make sure the provided version is listed when running `py --list`.''"
  by code_simp+

text \<open>
  C10, as stated, fails: the message repeats the version string, so a version that is
  itself the text of the path hint, and holds no \<open>/\<close>, yields a message for source
  \<open>PATH\<close> that contains the path hint.
\<close>

theorem hint_inside_quoted_version:
  "sublist path_hint (message (resolution_error ''PATH'' path_hint)) \<and>
   \<not> sublist ''/'' path_hint"
proof -
  have "\<not> sublist ''/'' path_hint"
    by code_simp
  moreover have "sublist path_hint (message (resolution_error ''PATH'' path_hint))"
    by (simp only: resolution_error_def exn.sel message_for_PATH
        sublist_quoted [OF hints_without_apostrophe(1)]) simp
  ultimately show ?thesis
    by simp
qed

text \<open>
  C10, amended. For source \<open>PATH\<close> the message contains the path hint exactly when
  the version contains \<open>/\<close> or contains the text of that hint itself, and it contains
  the launcher hint exactly when the version contains neither \<open>python\<close> nor \<open>/\<close>
  or contains the text of that hint itself. For source \<open>py launcher\<close> the message
  always names \<open>py --list\<close>, and contains a hint only when the version itself
  contains the text of that hint.
\<close>

theorem hints_in_resolution_message:
  "(sublist path_hint (message (resolution_error ''PATH'' v)) \<longleftrightarrow>
      sublist ''/'' v \<or> sublist path_hint v) \<and>
   (sublist pylauncher_hint (message (resolution_error ''PATH'' v)) \<longleftrightarrow>
      (\<not> sublist ''python'' v \<and> \<not> sublist ''/'' v) \<or> sublist pylauncher_hint v) \<and>
   sublist ''`py --list`'' (message (resolution_error ''py launcher'' v)) \<and>
   (sublist path_hint (message (resolution_error ''py launcher'' v)) \<longleftrightarrow>
      sublist path_hint v) \<and>
   (sublist pylauncher_hint (message (resolution_error ''py launcher'' v)) \<longleftrightarrow>
      sublist pylauncher_hint v)"
proof (intro conjI)
  have appended:
    "sublist path_hint
       ('' found in PATH. Please make sure the provided version is on your PATH or the file path is valid. '' @
        path_hint)"
    "sublist pylauncher_hint
       ('' found in PATH. Please make sure the provided version is on your PATH or the file path is valid. '' @
        pylauncher_hint)"
    by (rule sublist_append_leftI)+
  show "sublist path_hint (message (resolution_error ''PATH'' v)) \<longleftrightarrow>
          sublist ''/'' v \<or> sublist path_hint v"
    using fixed_text_without_hints(1,3,5) appended(1)
    by (simp only: resolution_error_def exn.sel message_for_PATH
        sublist_quoted [OF hints_without_apostrophe(1)]) simp
  show "sublist pylauncher_hint (message (resolution_error ''PATH'' v)) \<longleftrightarrow>
          (\<not> sublist ''python'' v \<and> \<not> sublist ''/'' v) \<or> sublist pylauncher_hint v"
    using fixed_text_without_hints(2,4,6) appended(2)
    by (simp only: resolution_error_def exn.sel message_for_PATH
        sublist_quoted [OF hints_without_apostrophe(2)]) auto
  have "sublist ''`py --list`''
          ((''No executable for the provided Python version '' @ apostrophe # v @ apostrophe #
            '' found in py launcher. Please make sure the provided version is listed when running '') @
           ''`py --list`'' @ ''.'')"
    by (rule sublist_appendI)
  then show "sublist ''`py --list`'' (message (resolution_error ''py launcher'' v))"
    by (simp add: resolution_error_def message_for_launcher)
  show "sublist path_hint (message (resolution_error ''py launcher'' v)) \<longleftrightarrow>
          sublist path_hint v"
    using fixed_text_without_hints(1,7)
    by (simp only: resolution_error_def exn.sel message_for_launcher
        sublist_quoted [OF hints_without_apostrophe(1)]) simp
  show "sublist pylauncher_hint (message (resolution_error ''py launcher'' v)) \<longleftrightarrow>
          sublist pylauncher_hint v"
    using fixed_text_without_hints(2,8)
    by (simp only: resolution_error_def exn.sel message_for_launcher
        sublist_quoted [OF hints_without_apostrophe(2)]) simp
qed

theorem hints_in_resolution_message_witness:
  "\<not> sublist ''python'' ''3.11'' \<and> \<not> sublist ''/'' ''3.11'' \<and>
   \<not> sublist path_hint ''3.11'' \<and> \<not> sublist pylauncher_hint ''3.11'' \<and>
   sublist pylauncher_hint (message (resolution_error ''PATH'' ''3.11'')) \<and>
   \<not> sublist path_hint (message (resolution_error ''PATH'' ''3.11'')) \<and>
   \<not> sublist path_hint (message (resolution_error ''py launcher'' ''3.11'')) \<and>
   \<not> sublist pylauncher_hint (message (resolution_error ''py launcher'' ''3.11''))"
proof -
  have short: "\<not> sublist ''python'' ''3.11''" "\<not> sublist ''/'' ''3.11''"
    "\<not> sublist path_hint ''3.11''" "\<not> sublist pylauncher_hint ''3.11''"
    by code_simp+
  show ?thesis
    using short hints_in_resolution_message [of "''3.11''"] by simp
qed

end
